theory Spec2Isabelle
  imports Main
begin

section \<open>The knowledge layer: notes, link graph and search index\<close>

text \<open>
  A shallow embedding of \<^verbatim>\<open>KnowledgeServiceImpl\<close>
  (\<^verbatim>\<open>knowledge-layer/src/node/knowledge-service-impl.ts\<close>) and of the interfaces of
  \<^verbatim>\<open>common/knowledge-service\<close>. The service keeps three relations in one SQLite
  database (\<^verbatim>\<open>notes\<close>, \<^verbatim>\<open>links\<close>, \<^verbatim>\<open>notes_fts\<close>) and one Markdown file per note in the
  vault directory. Every method becomes a function that takes the state of the service
  and returns its result together with the state it leaves behind; a method that throws
  returns \<open>Inl\<close> of the error, and the state returned with it holds the writes that
  were made before the throw (every statement runs in autocommit mode: the class opens
  no transaction).

  Strings are lists of 8-bit characters, read as the code points U+0000 to U+00FF.
  Timestamps are the millisecond counts of \<^verbatim>\<open>Date.getTime()\<close>.
\<close>

subsection \<open>Data model\<close>

datatype link_type = reference | backlink

record NoteLink =
  link_to :: string
  link_type :: link_type
  link_context :: string

record Note =
  note_id :: string
  note_title :: string
  note_content :: string
  note_path :: string
  note_tags :: "string list"
  note_created :: int
  note_modified :: int
  note_links :: "NoteLink list"

text \<open>
  \<^verbatim>\<open>NoteWriteRequest\<close>, also used as \<^verbatim>\<open>Partial<NoteWriteRequest>\<close>: a field that is
  \<open>None\<close> is a key the object does not have.
\<close>

record NoteWriteRequest =
  req_noteId :: "string option"
  req_path :: "string option"
  req_content :: "string option"
  req_title :: "string option"
  req_tags :: "string list option"

text \<open>
  The rows of the three tables of \<^verbatim>\<open>createTables\<close>. The column \<^verbatim>\<open>tags\<close> is nullable and
  holds the text \<^verbatim>\<open>JSON.stringify(tags)\<close>; it is modelled by the array of strings that
  \<^verbatim>\<open>JSON.parse\<close> reads back from that text (\<open>None\<close> is NULL).
\<close>

record notes_row =
  col_id :: string
  col_title :: string
  col_content :: string
  col_path :: string
  col_tags :: "string list option"
  col_created :: int
  col_modified :: int

record links_row =
  from_id :: string
  to_id :: string
  col_type :: link_type
  col_context :: string

record fts_row =
  fts_id :: string
  fts_title :: string
  fts_content :: string

text \<open>
  The state of the service: the database connection and the vault directory.
  \<open>foreign_keys\<close> is the connection's \<^verbatim>\<open>PRAGMA foreign_keys\<close>, which the class never
  sets: it has the value the database library was built with. The tables are lists in
  rowid order; \<open>files\<close> maps a path to the contents of the file there.
\<close>

record service =
  vaultPath :: string
  foreign_keys :: bool
  notes_table :: "notes_row list"
  links_table :: "links_row list"
  notes_fts :: "fts_row list"
  files :: "string \<Rightarrow> string option"

text \<open>
  What a call takes from its host: the clock read by \<^verbatim>\<open>new Date()\<close>, Node's
  \<^verbatim>\<open>path.join\<close>, and whether the file-system calls succeed.
\<close>

record host =
  now :: int
  path_join :: "string \<Rightarrow> string \<Rightarrow> string"
  ensureDir_ok :: bool
  writeFile_ok :: "string \<Rightarrow> bool"
  unlink_ok :: "string \<Rightarrow> bool"

datatype sqlite_code =
    SQLITE_CONSTRAINT_PRIMARYKEY
  | SQLITE_CONSTRAINT_UNIQUE
  | SQLITE_CONSTRAINT_FOREIGNKEY
  | SQLITE_MISMATCH
  | SQLITE_ERROR

datatype error =
    Error string
  | SqliteError sqlite_code
  | RangeError
  | FsError string

subsection \<open>Link extraction and the slug\<close>

text \<open>
  One attempt of \<^verbatim>\<open>/\[\[([^\]]+)\]\]/\<close> at the head of a string: two opening brackets,
  the longest run of characters other than a closing bracket (not empty), two closing
  brackets. The result is the captured group and the text after the match.
\<close>

definition linkRegex_at :: "string \<Rightarrow> (string \<times> string) option" where
  "linkRegex_at s =
     (case s of
        c1 # c2 # r \<Rightarrow>
          if c1 = CHR ''['' \<and> c2 = CHR ''[''
          then (let t = takeWhile (\<lambda>c. c \<noteq> CHR '']'') r;
                    r' = dropWhile (\<lambda>c. c \<noteq> CHR '']'') r
                in if t \<noteq> [] \<and> take 2 r' = '']]'' then Some (t, drop 2 r') else None)
          else None
      | _ \<Rightarrow> None)"

lemma linkRegex_at_shorter:
  "linkRegex_at s = Some (t, rest) \<Longrightarrow> length rest < length s"
proof -
  assume a: "linkRegex_at s = Some (t, rest)"
  then obtain c1 c2 r where s: "s = c1 # c2 # r"
    by (auto simp: linkRegex_at_def split: list.splits)
  from a s have "rest = drop 2 (dropWhile (\<lambda>c. c \<noteq> CHR '']'') r)"
    by (auto simp: linkRegex_at_def Let_def split: if_splits)
  moreover have "length (dropWhile (\<lambda>c. c \<noteq> CHR '']'') r) \<le> length r"
    by (rule length_dropWhile_le)
  ultimately show ?thesis using s by simp
qed

function extractLinks :: "string \<Rightarrow> NoteLink list" where
  "extractLinks [] = []"
| "extractLinks (c # cs) =
     (case linkRegex_at (c # cs) of
        Some (t, rest) \<Rightarrow>
          \<lparr>link_to = t, link_type = reference, link_context = ''[['' @ t @ '']]''\<rparr>
            # extractLinks rest
      | None \<Rightarrow> extractLinks cs)"
  by pat_completeness auto
termination
proof (relation "measure length")
  show "wf (measure length)" by simp
next
  fix c cs x2 x y
  assume "linkRegex_at (c # cs) = Some x2" and "(x, y) = x2"
  then have "linkRegex_at (c # cs) = Some (x, y)" by simp
  from linkRegex_at_shorter [OF this]
  show "(y, c # cs) \<in> measure length" by simp
next
  fix c :: char and cs :: string
  show "(cs, c # cs) \<in> measure length" by simp
qed

text \<open>
  \<^verbatim>\<open>title.toLowerCase().replace(/\s+/g, '-')\<close> on the code points below 256.
\<close>

definition toLowerCase_char :: "char \<Rightarrow> char" where
  "toLowerCase_char c =
     (let n = (of_char c :: nat)
      in if (65 \<le> n \<and> n \<le> 90) \<or> (192 \<le> n \<and> n \<le> 222 \<and> n \<noteq> 215)
         then char_of (n + 32) else c)"

definition isWhiteSpace :: "char \<Rightarrow> bool" where
  "isWhiteSpace c = ((of_char c :: nat) \<in> {9, 10, 11, 12, 13, 32, 160})"

fun replace_whitespace :: "bool \<Rightarrow> string \<Rightarrow> string" where
  "replace_whitespace in_run [] = []"
| "replace_whitespace in_run (c # cs) =
     (if isWhiteSpace c
      then (if in_run then replace_whitespace True cs
            else CHR ''-'' # replace_whitespace True cs)
      else c # replace_whitespace False cs)"

definition slug :: "string \<Rightarrow> string" where
  "slug title = replace_whitespace False (map toLowerCase_char title)"

definition formatNoteAsMarkdown :: "Note \<Rightarrow> string" where
  "formatNoteAsMarkdown note =
     ''# '' @ note_title note @ [CHR 0x0A, CHR 0x0A]
     @ (if length (note_tags note) > 0
        then ''Tags: ''
             @ concat (case map (\<lambda>tag. CHR ''#'' # tag) (note_tags note) of
                         [] \<Rightarrow> []
                       | t # ts \<Rightarrow> t # map (\<lambda>u. CHR '' '' # u) ts)
             @ [CHR 0x0A, CHR 0x0A]
        else [])
     @ note_content note"

subsection \<open>The statements the service prepares\<close>

text \<open>
  Each statement runs by itself: it either fails and changes nothing, or it is applied.
  \<^verbatim>\<open>INSERT INTO notes\<close> is refused when the path (UNIQUE) or the id (PRIMARY KEY) is in
  the table already; the engine reports the path when both are.
\<close>

definition insert_notes :: "notes_row \<Rightarrow> service \<Rightarrow> error + service" where
  "insert_notes row s =
     (if col_path row \<in> set (map col_path (notes_table s))
      then Inl (SqliteError SQLITE_CONSTRAINT_UNIQUE)
      else if col_id row \<in> set (map col_id (notes_table s))
      then Inl (SqliteError SQLITE_CONSTRAINT_PRIMARYKEY)
      else Inr (s\<lparr>notes_table := notes_table s @ [row]\<rparr>))"

text \<open>\<^verbatim>\<open>SELECT * FROM notes WHERE id = ?\<close>, read with \<^verbatim>\<open>get\<close>.\<close>

definition select_notes :: "string \<Rightarrow> service \<Rightarrow> notes_row option" where
  "select_notes noteId s = find (\<lambda>row. col_id row = noteId) (notes_table s)"

text \<open>\<^verbatim>\<open>UPDATE notes SET title = ?, content = ?, tags = ?, modified = ? WHERE id = ?\<close>\<close>

definition update_notes ::
  "string \<Rightarrow> string \<Rightarrow> string list \<Rightarrow> int \<Rightarrow> string \<Rightarrow> service \<Rightarrow> service" where
  "update_notes title content tags modified noteId s =
     s\<lparr>notes_table :=
         map (\<lambda>row. if col_id row = noteId
                     then row\<lparr>col_title := title, col_content := content,
                              col_tags := Some tags, col_modified := modified\<rparr>
                     else row)
             (notes_table s)\<rparr>"

text \<open>
  \<^verbatim>\<open>DELETE FROM notes WHERE id = ?\<close>. Both foreign keys of \<^verbatim>\<open>links\<close> are declared
  \<^verbatim>\<open>ON DELETE CASCADE\<close>: when the connection enforces foreign keys, the rows of \<^verbatim>\<open>links\<close>
  that name the deleted note go with it; when it does not, they stay.
\<close>

definition delete_notes :: "string \<Rightarrow> service \<Rightarrow> service" where
  "delete_notes noteId s =
     s\<lparr>notes_table := filter (\<lambda>row. col_id row \<noteq> noteId) (notes_table s),
       links_table :=
         (if foreign_keys s
          then filter (\<lambda>l. from_id l \<noteq> noteId \<and> to_id l \<noteq> noteId) (links_table s)
          else links_table s)\<rparr>"

text \<open>
  \<^verbatim>\<open>INSERT INTO links\<close>. The table has no key and no UNIQUE constraint; the CHECK on
  \<^verbatim>\<open>type\<close> holds for both values of \<open>link_type\<close>. An enforced foreign key refuses a row
  whose origin or target is not the id of a note.
\<close>

definition insert_links :: "links_row \<Rightarrow> service \<Rightarrow> error + service" where
  "insert_links row s =
     (if foreign_keys s
         \<and> \<not> (from_id row \<in> set (map col_id (notes_table s))
              \<and> to_id row \<in> set (map col_id (notes_table s)))
      then Inl (SqliteError SQLITE_CONSTRAINT_FOREIGNKEY)
      else Inr (s\<lparr>links_table := links_table s @ [row]\<rparr>))"

text \<open>
  \<^verbatim>\<open>INSERT OR IGNORE INTO links\<close>. \<^verbatim>\<open>OR IGNORE\<close> skips a row that violates a UNIQUE,
  NOT NULL, CHECK or PRIMARY KEY constraint. The row written here violates none of them,
  whatever the table holds, so it is inserted; a foreign key violation is raised as by the
  plain insert.
\<close>

definition insert_or_ignore_links :: "links_row \<Rightarrow> service \<Rightarrow> error + service" where
  "insert_or_ignore_links row s = insert_links row s"

text \<open>\<^verbatim>\<open>DELETE FROM links WHERE from_id = ?\<close>\<close>

definition delete_links :: "string \<Rightarrow> service \<Rightarrow> service" where
  "delete_links noteId s =
     s\<lparr>links_table := filter (\<lambda>l. from_id l \<noteq> noteId) (links_table s)\<rparr>"

text \<open>
  \<^verbatim>\<open>INSERT OR REPLACE INTO notes_fts (id, title, content)\<close>. The only key of an FTS5 table
  is its rowid, which the statement leaves to the engine; \<^verbatim>\<open>id\<close> is an UNINDEXED column
  without a constraint. The new row gets a fresh rowid and replaces nothing.
\<close>

definition insert_or_replace_notes_fts :: "fts_row \<Rightarrow> service \<Rightarrow> service" where
  "insert_or_replace_notes_fts row s = s\<lparr>notes_fts := notes_fts s @ [row]\<rparr>"

text \<open>\<^verbatim>\<open>DELETE FROM notes_fts WHERE id = ?\<close>\<close>

definition delete_notes_fts :: "string \<Rightarrow> service \<Rightarrow> service" where
  "delete_notes_fts noteId s =
     s\<lparr>notes_fts := filter (\<lambda>e. fts_id e \<noteq> noteId) (notes_fts s)\<rparr>"

text \<open>
  \<^verbatim>\<open>forEach\<close> over statements: the first one that throws ends the loop, and the rows
  written before it stay.
\<close>

fun forEach ::
  "('a \<Rightarrow> service \<Rightarrow> error + service) \<Rightarrow> 'a list \<Rightarrow> service \<Rightarrow> (error + unit) \<times> service" where
  "forEach f [] s = (Inr (), s)"
| "forEach f (x # xs) s =
     (case f x s of
        Inl e \<Rightarrow> (Inl e, s)
      | Inr s' \<Rightarrow> forEach f xs s')"

subsection \<open>The methods of the service\<close>

definition indexNoteInFTS :: "Note \<Rightarrow> service \<Rightarrow> service" where
  "indexNoteInFTS note s =
     insert_or_replace_notes_fts
       \<lparr>fts_id = note_id note, fts_title = note_title note, fts_content = note_content note\<rparr> s"

definition createBacklinks :: "Note \<Rightarrow> service \<Rightarrow> (error + unit) \<times> service" where
  "createBacklinks note s =
     forEach (\<lambda>link. insert_or_ignore_links
                \<lparr>from_id = link_to link, to_id = note_id note,
                 col_type = backlink, col_context = []\<rparr>)
             (note_links note) s"

definition updateLinks :: "Note \<Rightarrow> service \<Rightarrow> (error + unit) \<times> service" where
  "updateLinks note s =
     (case forEach (\<lambda>link. insert_links
                      \<lparr>from_id = note_id note, to_id = link_to link,
                       col_type = link_type link, col_context = link_context link\<rparr>)
                   (note_links note) (delete_links (note_id note) s) of
        (Inl e, s') \<Rightarrow> (Inl e, s')
      | (Inr u, s') \<Rightarrow> createBacklinks note s')"

definition createNote ::
  "host \<Rightarrow> string \<Rightarrow> string \<Rightarrow> string list \<Rightarrow> service \<Rightarrow> (error + Note) \<times> service" where
  "createNote h title content tags s =
     (let filePath = path_join h (vaultPath s) (title @ ''.md'');
          note = \<lparr>note_id = slug title, note_title = title, note_content = content,
                  note_path = filePath, note_tags = tags,
                  note_created = now h, note_modified = now h,
                  note_links = extractLinks content\<rparr>
      in if \<not> ensureDir_ok h then (Inl (FsError (vaultPath s)), s)
         else if \<not> writeFile_ok h filePath then (Inl (FsError filePath), s)
         else
           (let s1 = s\<lparr>files := (files s)(filePath \<mapsto> formatNoteAsMarkdown note)\<rparr>
            in case insert_notes
                      \<lparr>col_id = note_id note, col_title = note_title note,
                       col_content = note_content note, col_path = note_path note,
                       col_tags = Some (note_tags note),
                       col_created = note_created note,
                       col_modified = note_modified note\<rparr> s1 of
                 Inl e \<Rightarrow> (Inl e, s1)
               | Inr s2 \<Rightarrow>
                   (case updateLinks note (indexNoteInFTS note s2) of
                      (Inl e, s3) \<Rightarrow> (Inl e, s3)
                    | (Inr u, s3) \<Rightarrow> (Inr note, s3))))"

definition readNote :: "string \<Rightarrow> service \<Rightarrow> Note option" where
  "readNote noteId s =
     (case select_notes noteId s of
        None \<Rightarrow> None
      | Some row \<Rightarrow>
          Some \<lparr>note_id = col_id row, note_title = col_title row,
                note_content = col_content row, note_path = col_path row,
                note_tags = (case col_tags row of None \<Rightarrow> [] | Some tags \<Rightarrow> tags),
                note_created = col_created row, note_modified = col_modified row,
                note_links = []\<rparr>)"

text \<open>
  \<^verbatim>\<open>{...note, ...updates, modified: new Date(), links: ...}\<close>: a key of \<^verbatim>\<open>updates\<close> replaces
  the field of the note that was read, \<^verbatim>\<open>path\<close> included. \<^verbatim>\<open>updates.content || note.content\<close>
  takes the old content also when the new one is the empty string.
\<close>

definition spread :: "'a \<Rightarrow> 'a option \<Rightarrow> 'a" where
  "spread old new = (case new of None \<Rightarrow> old | Some v \<Rightarrow> v)"

definition updateNote ::
  "host \<Rightarrow> string \<Rightarrow> NoteWriteRequest \<Rightarrow> service \<Rightarrow> (error + Note) \<times> service" where
  "updateNote h noteId updates s =
     (case readNote noteId s of
        None \<Rightarrow> (Inl (Error (''Note not found: '' @ noteId)), s)
      | Some note \<Rightarrow>
          (let updatedNote =
                 \<lparr>note_id = note_id note,
                  note_title = spread (note_title note) (req_title updates),
                  note_content = spread (note_content note) (req_content updates),
                  note_path = spread (note_path note) (req_path updates),
                  note_tags = spread (note_tags note) (req_tags updates),
                  note_created = note_created note,
                  note_modified = now h,
                  note_links =
                    extractLinks
                      (case req_content updates of
                         None \<Rightarrow> note_content note
                       | Some c \<Rightarrow> if c = [] then note_content note else c)\<rparr>;
               s1 = update_notes (note_title updatedNote) (note_content updatedNote)
                      (note_tags updatedNote) (note_modified updatedNote) noteId s
           in if \<not> writeFile_ok h (note_path updatedNote)
              then (Inl (FsError (note_path updatedNote)), s1)
              else
                (let s2 = s1\<lparr>files := (files s1)(note_path updatedNote \<mapsto>
                                          formatNoteAsMarkdown updatedNote)\<rparr>
                 in case updateLinks updatedNote (indexNoteInFTS updatedNote s2) of
                      (Inl e, s3) \<Rightarrow> (Inl e, s3)
                    | (Inr u, s3) \<Rightarrow> (Inr updatedNote, s3))))"

text \<open>A failure of \<^verbatim>\<open>fs.unlink\<close> is caught and logged.\<close>

definition deleteNote :: "host \<Rightarrow> string \<Rightarrow> service \<Rightarrow> bool \<times> service" where
  "deleteNote h noteId s =
     (case readNote noteId s of
        None \<Rightarrow> (False, s)
      | Some note \<Rightarrow>
          (let s1 = delete_notes_fts noteId (delete_notes noteId s)
           in (True, if unlink_ok h (note_path note)
                     then s1\<lparr>files := (files s1)(note_path note := None)\<rparr>
                     else s1)))"

text \<open>
  \<^verbatim>\<open>request.noteId\<close> and \<^verbatim>\<open>request.title\<close> are tested for truthiness: a missing key and
  the empty string are both falsy. The defaults \<^verbatim>\<open>content = ''\<close> and \<^verbatim>\<open>tags = []\<close> of
  \<^verbatim>\<open>createNote\<close> stand in for an argument that is undefined.
\<close>

definition truthy :: "string option \<Rightarrow> bool" where
  "truthy v = (case v of None \<Rightarrow> False | Some x \<Rightarrow> x \<noteq> [])"

definition toolWriteNote ::
  "host \<Rightarrow> NoteWriteRequest \<Rightarrow> service \<Rightarrow> (error + Note) \<times> service" where
  "toolWriteNote h request s =
     (if truthy (req_noteId request)
      then updateNote h (spread [] (req_noteId request)) request s
      else createNote h
             (if truthy (req_title request) then spread [] (req_title request)
              else ''Untitled'')
             (spread [] (req_content request))
             (spread [] (req_tags request)) s)"

subsection \<open>Full-text search\<close>

text \<open>
  \<^verbatim>\<open>notes_fts MATCH ?\<close> is evaluated by SQLite's FTS5 module, which is not part of the
  repository. What it does with a query is a parameter of the model: \<open>None\<close> when it
  rejects the text of the query, otherwise the rank it gives to each row of the table
  that matches (ranks are the engine's bm25 scores; only their order is used here, and
  they are integers in the model).

  One rule of the engine is written out, since the service passes the caller's text to
  it unchanged: the text is first cut into tokens, and the expression grammar has a
  minus sign only in front of a column filter. The tokenizer below is the one of the
  engine's expression parser: blanks separate tokens, a double quote opens a string
  that runs to the next unpaired double quote (its text is not kept: only barewords can
  be keywords), a bareword is a run of letters, digits,
  underscores, the character 0x1A and characters from 0x80 on, and ten punctuation signs
  are tokens of their own. Any other character, a string that is not closed, an empty
  token list, or a minus sign that does not start a column filter is a syntax error.
\<close>

datatype fts5_token =
    FTS5_STRING string
  | FTS5_OR | FTS5_AND | FTS5_NOT
  | FTS5_LP | FTS5_RP | FTS5_LCP | FTS5_RCP
  | FTS5_COLON | FTS5_COMMA | FTS5_PLUS | FTS5_STAR | FTS5_MINUS | FTS5_CARET

definition fts5_isspace :: "char \<Rightarrow> bool" where
  "fts5_isspace c = (c = CHR '' '' \<or> c = CHR 0x09 \<or> c = CHR 0x0A \<or> c = CHR 0x0D)"

definition fts5_isBareword :: "char \<Rightarrow> bool" where
  "fts5_isBareword c =
     (let n = (of_char c :: nat)
      in 128 \<le> n \<or> n = 26 \<or> (48 \<le> n \<and> n \<le> 57) \<or> (65 \<le> n \<and> n \<le> 90)
         \<or> n = 95 \<or> (97 \<le> n \<and> n \<le> 122))"

definition fts5_punctuation :: "char \<Rightarrow> fts5_token option" where
  "fts5_punctuation c =
     (if c = CHR ''('' then Some FTS5_LP
      else if c = CHR '')'' then Some FTS5_RP
      else if c = CHR ''{'' then Some FTS5_LCP
      else if c = CHR ''}'' then Some FTS5_RCP
      else if c = CHR '':'' then Some FTS5_COLON
      else if c = CHR '','' then Some FTS5_COMMA
      else if c = CHR ''+'' then Some FTS5_PLUS
      else if c = CHR ''*'' then Some FTS5_STAR
      else if c = CHR ''-'' then Some FTS5_MINUS
      else if c = CHR ''^'' then Some FTS5_CARET
      else None)"

text \<open>
  The text after the double quote that closes a string, read from behind the opening
  one; two double quotes in a row stand for one inside the string.
\<close>

fun fts5_quoted :: "string \<Rightarrow> string option" where
  "fts5_quoted [] = None"
| "fts5_quoted [c] = (if c = CHR 0x22 then Some [] else None)"
| "fts5_quoted (c # d # ds) =
     (if c = CHR 0x22
      then (if d = CHR 0x22 then fts5_quoted ds else Some (d # ds))
      else if c = CHR 0x00 then None
      else fts5_quoted (d # ds))"

lemma fts5_quoted_shorter: "fts5_quoted s = Some rest \<Longrightarrow> length rest < length s"
  by (induction s arbitrary: rest rule: fts5_quoted.induct)
     (fastforce split: if_splits)+

definition fts5_keyword :: "string \<Rightarrow> fts5_token" where
  "fts5_keyword w =
     (if w = ''OR'' then FTS5_OR
      else if w = ''NOT'' then FTS5_NOT
      else if w = ''AND'' then FTS5_AND
      else FTS5_STRING w)"

function fts5_tokens :: "string \<Rightarrow> fts5_token list option" where
  "fts5_tokens [] = Some []"
| "fts5_tokens (c # cs) =
     (if fts5_isspace c then fts5_tokens cs
      else if c = CHR 0x00 then Some []
      else if fts5_punctuation c \<noteq> None
      then map_option (\<lambda>ts. the (fts5_punctuation c) # ts) (fts5_tokens cs)
      else if c = CHR 0x22
      then (case fts5_quoted cs of
              None \<Rightarrow> None
            | Some rest \<Rightarrow> map_option (\<lambda>ts. FTS5_STRING [] # ts) (fts5_tokens rest))
      else if fts5_isBareword c
      then map_option (\<lambda>ts. fts5_keyword (c # takeWhile fts5_isBareword cs) # ts)
             (fts5_tokens (dropWhile fts5_isBareword cs))
      else None)"
  by pat_completeness auto
termination
proof (relation "measure length")
  show "wf (measure length)" by simp
next
  fix c :: char and cs :: string
  show "(cs, c # cs) \<in> measure length" by simp
  show "(cs, c # cs) \<in> measure length" by simp
  show "(dropWhile fts5_isBareword cs, c # cs) \<in> measure length"
    by (simp add: le_imp_less_Suc length_dropWhile_le)
next
  fix c :: char and cs rest :: string
  assume "fts5_quoted cs = Some rest"
  from fts5_quoted_shorter [OF this]
  show "(rest, c # cs) \<in> measure length" by simp
qed

definition fts5_column_filter :: "fts5_token list \<Rightarrow> bool" where
  "fts5_column_filter ts =
     (case ts of
        [] \<Rightarrow> False
      | t # r \<Rightarrow>
          if t = FTS5_LCP then True
          else (case t of
                  FTS5_STRING w \<Rightarrow> (case r of [] \<Rightarrow> False | u # r' \<Rightarrow> u = FTS5_COLON)
                | _ \<Rightarrow> False))"

fun fts5_minus_ok :: "fts5_token list \<Rightarrow> bool" where
  "fts5_minus_ok [] = True"
| "fts5_minus_ok (t # ts) =
     (if t = FTS5_MINUS \<and> \<not> fts5_column_filter ts then False else fts5_minus_ok ts)"

type_synonym fts5_engine = "string \<Rightarrow> (fts_row list \<Rightarrow> fts_row \<Rightarrow> int option) option"

text \<open>The rows of \<^verbatim>\<open>notes_fts\<close> that match the query, each with its rank.\<close>

definition notes_fts_MATCH ::
  "fts5_engine \<Rightarrow> string \<Rightarrow> fts_row list \<Rightarrow> error + (fts_row \<times> int) list" where
  "notes_fts_MATCH engine query table =
     (case fts5_tokens query of
        None \<Rightarrow> Inl (SqliteError SQLITE_ERROR)
      | Some ts \<Rightarrow>
          if ts = [] then Inl (SqliteError SQLITE_ERROR)
          else if \<not> fts5_minus_ok ts then Inl (SqliteError SQLITE_ERROR)
          else (case engine query of
                  None \<Rightarrow> Inl (SqliteError SQLITE_ERROR)
                | Some rank \<Rightarrow>
                    Inr (concat (map (\<lambda>e. case rank table e of
                                             None \<Rightarrow> []
                                           | Some r \<Rightarrow> [(e, r)]) table))))"

record SearchResult =
  res_noteId :: string
  res_title :: string
  res_preview :: string
  res_score :: int
  res_matches :: "string list"

text \<open>
  A JavaScript number as the statement sees it: \<open>Whole i\<close> is the number whose value is
  the integer \<open>i\<close>, \<open>NotWhole\<close> any other number (one with a fractional part, NaN, an
  infinity).
\<close>

datatype js_number = Whole int | NotWhole

datatype sql_value = Text string | Number js_number

text \<open>
  \<^verbatim>\<open>LIMIT ?\<close> wants an integer. The library binds a number as a 32-bit integer when it is
  one and as a double otherwise, and the engine takes a double for an integer when it has
  no fractional part and lies strictly between \<open>- 2 ^ 63\<close> and \<open>2 ^ 63\<close>; for any other
  value the statement fails with \<^verbatim>\<open>datatype mismatch\<close>.
\<close>

definition limit_integer :: "js_number \<Rightarrow> error + int" where
  "limit_integer n =
     (case n of
        NotWhole \<Rightarrow> Inl (SqliteError SQLITE_MISMATCH)
      | Whole i \<Rightarrow>
          if - (2 ^ 63) < i \<and> i < 2 ^ 63 then Inr i
          else Inl (SqliteError SQLITE_MISMATCH))"

text \<open>
  \<^verbatim>\<open>search\<close>. The statement has one placeholder for the query, one for a tag when
  \<^verbatim>\<open>tags\<close> is a non-empty array, and one for the limit; \<^verbatim>\<open>params\<close> holds the query, every
  element of \<^verbatim>\<open>tags\<close>, and the limit. \<^verbatim>\<open>select.all(...params)\<close> binds before it runs the
  statement and throws a RangeError unless there are as many values as placeholders.
  The engine then reads the limit, before it looks at the query: a limit that is not an
  integer ends the statement with an error, a limit of zero ends it with no rows and
  without the query being parsed, and a negative limit is no limit.
\<close>

definition search ::
  "fts5_engine \<Rightarrow> string \<Rightarrow> string list option \<Rightarrow> js_number option \<Rightarrow> service
     \<Rightarrow> error + SearchResult list" where
  "search engine query tags limit s =
     (let with_tags = (case tags of None \<Rightarrow> False | Some ts \<Rightarrow> length ts > 0);
          placeholders = 1 + (if with_tags then 1 else 0) + (1::nat);
          params = [Text query]
                   @ (if with_tags then map Text (spread [] tags) else [])
                   @ [Number (spread (Whole 50) limit)]
      in if length params \<noteq> placeholders then Inl RangeError
         else
           (case limit_integer (spread (Whole 50) limit) of
              Inl e \<Rightarrow> Inl e
            | Inr k \<Rightarrow>
                if k = 0 then Inr []
                else
                  (case notes_fts_MATCH engine query (notes_fts s) of
                     Inl e \<Rightarrow> Inl e
                   | Inr hits \<Rightarrow>
                       (let joined = concat (map (\<lambda>(e, r). map (\<lambda>n. (n, r))
                                        (filter (\<lambda>n. fts_id e = col_id n) (notes_table s)))
                                        hits);
                            kept = (if with_tags
                                    then filter (\<lambda>(n, r). params ! 1
                                                    \<in> Text ` set (spread [] (col_tags n)))
                                           joined
                                    else joined);
                            ordered = sort_key snd kept;
                            rows = (if k < 0 then ordered else take (nat k) ordered)
                        in Inr (map (\<lambda>(n, r).
                                  \<lparr>res_noteId = col_id n, res_title = col_title n,
                                   res_preview = take 200 (col_content n) @ ''...'',
                                   res_score = r, res_matches = []\<rparr>) rows)))))"

subsection \<open>Example hosts and stores\<close>

text \<open>
  A host whose \<^verbatim>\<open>path.join\<close> puts a slash between directory and file name (what Node
  does for names without dots and slashes), with the clock at \<open>t\<close>; \<open>writable\<close> says
  whether \<^verbatim>\<open>fs.writeFile\<close> succeeds. The empty store is the database right after
  \<^verbatim>\<open>createTables\<close> in an empty vault.
\<close>

definition vault_host :: "int \<Rightarrow> bool \<Rightarrow> host" where
  "vault_host t writable =
     \<lparr>now = t, path_join = (\<lambda>dir file. dir @ ''/'' @ file), ensureDir_ok = True,
      writeFile_ok = (\<lambda>p. writable), unlink_ok = (\<lambda>p. True)\<rparr>"

definition empty_service :: "bool \<Rightarrow> service" where
  "empty_service fk =
     \<lparr>vaultPath = ''/vault'', foreign_keys = fk, notes_table = [], links_table = [],
      notes_fts = [], files = (\<lambda>p. None)\<rparr>"

text \<open>
  A store that holds the note \<^verbatim>\<open>A\<close> (id \<^verbatim>\<open>a\<close>), created at time 1000, and one that also
  holds a note \<^verbatim>\<open>B\<close> whose content links to \<^verbatim>\<open>a\<close>. A partial update that carries only new
  content.
\<close>

definition note_A_store :: "bool \<Rightarrow> service" where
  "note_A_store fk =
     snd (createNote (vault_host 1000 True) ''A'' ''old text'' [''t''] (empty_service fk))"

definition linked_store :: "bool \<Rightarrow> service" where
  "linked_store fk =
     snd (createNote (vault_host 1001 True) ''B'' ''see [[a]] and [[a]]'' [] (note_A_store fk))"

definition new_content :: "string \<Rightarrow> NoteWriteRequest" where
  "new_content c =
     \<lparr>req_noteId = None, req_path = None, req_content = Some c,
      req_title = None, req_tags = None\<rparr>"

text \<open>An engine that accepts every query and ranks every row with \<open>r\<close>.\<close>

definition match_all :: "int \<Rightarrow> fts5_engine" where
  "match_all r = (\<lambda>query. Some (\<lambda>table e. Some r))"

text \<open>
  An engine that accepts every query and matches the rows whose title is the text of
  the query, all with rank 0.
\<close>

definition match_title :: fts5_engine where
  "match_title = (\<lambda>query. Some (\<lambda>table e. if fts_title e = query then Some 0 else None))"

subsection \<open>Node's path.join\<close>








subsection \<open>What an operation writes\<close>

text \<open>
  The rows that \<^verbatim>\<open>updateLinks\<close> sends to the \<^verbatim>\<open>links\<close> table for a note, in the order of
  its two loops: a reference row for every link, then a backlink row for every link.
  A row passes the foreign keys of the table when they are not enforced, or when its
  origin and its target are ids of notes.
\<close>

definition link_rows :: "Note \<Rightarrow> links_row list" where
  "link_rows note =
     map (\<lambda>link. \<lparr>from_id = note_id note, to_id = link_to link,
                    col_type = link_type link, col_context = link_context link\<rparr>)
         (note_links note)
     @ map (\<lambda>link. \<lparr>from_id = link_to link, to_id = note_id note,
                      col_type = backlink, col_context = []\<rparr>)
           (note_links note)"

definition foreign_key_ok :: "bool \<Rightarrow> string list \<Rightarrow> links_row \<Rightarrow> bool" where
  "foreign_key_ok enforced ids row =
     (if enforced then from_id row \<in> set ids \<and> to_id row \<in> set ids else True)"

text \<open>
  The object \<^verbatim>\<open>note\<close> that \<^verbatim>\<open>createNote\<close> builds, the row of \<^verbatim>\<open>notes\<close> that is inserted for a
  note and the row of \<^verbatim>\<open>notes_fts\<close> that \<^verbatim>\<open>indexNoteInFTS\<close> inserts for it.
\<close>

definition newNote :: "host \<Rightarrow> service \<Rightarrow> string \<Rightarrow> string \<Rightarrow> string list \<Rightarrow> Note" where
  "newNote h s title content tags =
     \<lparr>note_id = slug title, note_title = title, note_content = content,
      note_path = path_join h (vaultPath s) (title @ ''.md''), note_tags = tags,
      note_created = now h, note_modified = now h,
      note_links = extractLinks content\<rparr>"

definition notes_row_of :: "Note \<Rightarrow> notes_row" where
  "notes_row_of note =
     \<lparr>col_id = note_id note, col_title = note_title note,
      col_content = note_content note, col_path = note_path note,
      col_tags = Some (note_tags note),
      col_created = note_created note, col_modified = note_modified note\<rparr>"

definition fts_row_of :: "Note \<Rightarrow> fts_row" where
  "fts_row_of note =
     \<lparr>fts_id = note_id note, fts_title = note_title note, fts_content = note_content note\<rparr>"

text \<open>The object \<^verbatim>\<open>updatedNote\<close> that \<^verbatim>\<open>updateNote\<close> builds from the note it has read.\<close>

definition updatedNote :: "host \<Rightarrow> Note \<Rightarrow> NoteWriteRequest \<Rightarrow> Note" where
  "updatedNote h note updates =
     \<lparr>note_id = note_id note,
      note_title = spread (note_title note) (req_title updates),
      note_content = spread (note_content note) (req_content updates),
      note_path = spread (note_path note) (req_path updates),
      note_tags = spread (note_tags note) (req_tags updates),
      note_created = note_created note,
      note_modified = now h,
      note_links =
        extractLinks
          (case req_content updates of
             None \<Rightarrow> note_content note
           | Some c \<Rightarrow> if c = [] then note_content note else c)\<rparr>"

text \<open>
  Whether the engine refuses the text of a query: the tokenizer fails, there is no
  token, a minus sign is out of place, or the engine's own parser says so.
\<close>

definition fts5_rejects :: "fts5_engine \<Rightarrow> string \<Rightarrow> bool" where
  "fts5_rejects engine query =
     (case fts5_tokens query of
        None \<Rightarrow> True
      | Some ts \<Rightarrow>
          if ts = [] then True
          else if fts5_minus_ok ts then engine query = None
          else True)"

subsection \<open>Operations as values\<close>

text \<open>
  The three mutating methods as one type, with the error a call ends in (\<open>None\<close>
  when it returns). \<^verbatim>\<open>deleteNote\<close> catches the only failure it can meet.
\<close>

datatype operation =
    CreateNote string string "string list"
  | UpdateNote string NoteWriteRequest
  | DeleteNote string

definition outcome :: "(error + 'a) \<times> service \<Rightarrow> error option \<times> service" where
  "outcome r = (case r of (Inl e, s') \<Rightarrow> (Some e, s') | (Inr v, s') \<Rightarrow> (None, s'))"

definition run_operation :: "host \<Rightarrow> operation \<Rightarrow> service \<Rightarrow> error option \<times> service" where
  "run_operation h operation s =
     (case operation of
        CreateNote title content tags \<Rightarrow> outcome (createNote h title content tags s)
      | UpdateNote noteId updates \<Rightarrow> outcome (updateNote h noteId updates s)
      | DeleteNote noteId \<Rightarrow> (None, snd (deleteNote h noteId s)))"

text \<open>
  The failures that come before the first write to the database: for a create, every
  error but a foreign key violation (which an insert into \<^verbatim>\<open>links\<close> raises, after the
  rows of \<^verbatim>\<open>notes\<close> and \<^verbatim>\<open>notes_fts\<close> are written); for an update, the \<^verbatim>\<open>Error\<close> thrown for
  an id that is not found.
\<close>

definition fails_before_store_write :: "operation \<Rightarrow> error \<Rightarrow> bool" where
  "fails_before_store_write operation e =
     (case operation of
        CreateNote title content tags \<Rightarrow> e \<noteq> SqliteError SQLITE_CONSTRAINT_FOREIGNKEY
      | UpdateNote noteId updates \<Rightarrow> (case e of Error msg \<Rightarrow> True | _ \<Rightarrow> False)
      | DeleteNote noteId \<Rightarrow> True)"

section \<open>Properties\<close>

subsection \<open>What the link statements leave alone\<close>

lemma forEach_preserves:
  assumes "\<And>x s s'. f x s = Inr s' \<Longrightarrow> P s' = P s"
  shows "P (snd (forEach f xs s)) = P s"
  using assms
proof (induction xs arbitrary: s)
  case Nil
  then show ?case by simp
next
  case (Cons x xs)
  show ?case
  proof (cases "f x s")
    case (Inl e)
    then show ?thesis by simp
  next
    case (Inr s')
    have "P (snd (forEach f xs s')) = P s'" using Cons.IH Cons.prems by blast
    moreover have "P s' = P s" using Cons.prems Inr by blast
    ultimately show ?thesis using Inr by simp
  qed
qed

lemma insert_links_preserves:
  assumes "\<And>t l. P (t\<lparr>links_table := l\<rparr>) = P t"
    and "insert_links row s = Inr s'"
  shows "P s' = P s"
  using assms by (auto simp: insert_links_def split: if_splits)

lemma insert_or_ignore_links_eq: "insert_or_ignore_links row = insert_links row"
  by (rule ext) (simp add: insert_or_ignore_links_def)

lemma createBacklinks_preserves:
  assumes frame: "\<And>t l. P (t\<lparr>links_table := l\<rparr>) = P t"
  shows "P (snd (createBacklinks note s)) = P s"
proof -
  let ?f = "\<lambda>link. insert_links
              \<lparr>from_id = link_to link, to_id = note_id note,
               col_type = backlink, col_context = []\<rparr>"
  have step: "\<And>x t t'. ?f x t = Inr t' \<Longrightarrow> P t' = P t"
    using frame by (auto simp: insert_links_def split: if_splits)
  have "P (snd (forEach ?f (note_links note) s)) = P s"
    using step by (rule forEach_preserves [where P = P and f = ?f])
  then show ?thesis
    by (simp add: createBacklinks_def insert_or_ignore_links_eq)
qed

lemma updateLinks_preserves:
  assumes frame: "\<And>t l. P (t\<lparr>links_table := l\<rparr>) = P t"
  shows "P (snd (updateLinks note s)) = P s"
proof -
  let ?f = "\<lambda>link. insert_links
              \<lparr>from_id = note_id note, to_id = link_to link,
               col_type = link_type link, col_context = link_context link\<rparr>"
  let ?r = "forEach ?f (note_links note) (delete_links (note_id note) s)"
  have step: "\<And>x t t'. ?f x t = Inr t' \<Longrightarrow> P t' = P t"
    using frame by (auto simp: insert_links_def split: if_splits)
  have a: "P (snd ?r) = P (delete_links (note_id note) s)"
    using step by (rule forEach_preserves [where P = P and f = ?f])
  have b: "P (delete_links (note_id note) s) = P s"
    by (simp add: delete_links_def frame)
  have c: "P (snd (createBacklinks note (snd ?r))) = P (snd ?r)"
    using frame by (rule createBacklinks_preserves [where P = P])
  show ?thesis
  proof (cases ?r)
    case (Pair r s')
    then show ?thesis using a b c
      by (cases r) (simp_all add: updateLinks_def)
  qed
qed

lemma snd_rethrow:
  "snd (case p of (Inl e, s') \<Rightarrow> (Inl e, s') | (Inr u, s') \<Rightarrow> (Inr n, s')) = snd p"
  by (cases p) (auto split: sum.splits)


subsection \<open>What the link statements write\<close>

lemma forEach_insert_links_result:
  "forEach (\<lambda>x. insert_links (g x)) xs t =
     (if list_all (foreign_key_ok (foreign_keys t) (map col_id (notes_table t))) (map g xs)
      then Inr () else Inl (SqliteError SQLITE_CONSTRAINT_FOREIGNKEY),
      t\<lparr>links_table := links_table t
           @ takeWhile (foreign_key_ok (foreign_keys t) (map col_id (notes_table t)))
               (map g xs)\<rparr>)"
proof (induction xs arbitrary: t)
  case Nil
  then show ?case by simp
next
  case (Cons x xs)
  let ?ok = "foreign_key_ok (foreign_keys t) (map col_id (notes_table t))"
  show ?case
  proof (cases "?ok (g x)")
    case False
    then have "insert_links (g x) t = Inl (SqliteError SQLITE_CONSTRAINT_FOREIGNKEY)"
      by (auto simp: insert_links_def foreign_key_ok_def split: if_splits)
    with False show ?thesis by simp
  next
    case True
    let ?t = "t\<lparr>links_table := links_table t @ [g x]\<rparr>"
    from True have ins: "insert_links (g x) t = Inr ?t"
      by (auto simp: insert_links_def foreign_key_ok_def split: if_splits)
    have "forEach (\<lambda>x. insert_links (g x)) (x # xs) t = forEach (\<lambda>x. insert_links (g x)) xs ?t"
      using ins by simp
    also have "\<dots> = (if list_all ?ok (map g xs)
                       then Inr () else Inl (SqliteError SQLITE_CONSTRAINT_FOREIGNKEY),
                       ?t\<lparr>links_table := links_table ?t @ takeWhile ?ok (map g xs)\<rparr>)"
      using Cons.IH [of ?t] by simp
    finally show ?thesis using True by simp
  qed
qed

lemma takeWhile_append_all: "list_all P xs \<Longrightarrow> takeWhile P (xs @ ys) = xs @ takeWhile P ys"
  by (induction xs) auto

lemma takeWhile_append_stop: "\<not> list_all P xs \<Longrightarrow> takeWhile P (xs @ ys) = takeWhile P xs"
  by (induction xs) auto

lemma updateLinks_result:
  "updateLinks note s =
     (if list_all (foreign_key_ok (foreign_keys s) (map col_id (notes_table s))) (link_rows note)
      then Inr () else Inl (SqliteError SQLITE_CONSTRAINT_FOREIGNKEY),
      s\<lparr>links_table := filter (\<lambda>l. from_id l \<noteq> note_id note) (links_table s)
           @ takeWhile (foreign_key_ok (foreign_keys s) (map col_id (notes_table s)))
               (link_rows note)\<rparr>)"
proof -
  define ok where "ok = foreign_key_ok (foreign_keys s) (map col_id (notes_table s))"
  define refrow where "refrow = (\<lambda>link :: NoteLink. \<lparr>from_id = note_id note, to_id = link_to link,
                    col_type = link_type link, col_context = link_context link\<rparr>)"
  define backrow where "backrow = (\<lambda>link :: NoteLink. \<lparr>from_id = link_to link, to_id = note_id note,
                      col_type = backlink, col_context = []\<rparr>)"
  define kept where "kept = filter (\<lambda>l. from_id l \<noteq> note_id note) (links_table s)"
  define s0 where "s0 = delete_links (note_id note) s"
  define ls where "ls = note_links note"
  have rows: "link_rows note = map refrow ls @ map backrow ls"
    by (simp add: link_rows_def refrow_def backrow_def ls_def)
  have s0: "foreign_keys s0 = foreign_keys s" "notes_table s0 = notes_table s"
    "links_table s0 = kept" "s0\<lparr>links_table := kept\<rparr> = s\<lparr>links_table := kept\<rparr>"
    by (simp_all add: s0_def delete_links_def kept_def)
  have upd: "updateLinks note s =
      (case forEach (\<lambda>l. insert_links (refrow l)) ls s0 of
         (Inl e, t) \<Rightarrow> (Inl e, t)
       | (Inr u, t) \<Rightarrow> forEach (\<lambda>l. insert_links (backrow l)) ls t)"
    unfolding updateLinks_def createBacklinks_def insert_or_ignore_links_eq
      refrow_def backrow_def s0_def ls_def
    by (rule refl)
  have first: "forEach (\<lambda>l. insert_links (refrow l)) ls s0 =
      (if list_all ok (map refrow ls) then Inr () else Inl (SqliteError SQLITE_CONSTRAINT_FOREIGNKEY),
       s\<lparr>links_table := kept @ takeWhile ok (map refrow ls)\<rparr>)"
    unfolding forEach_insert_links_result s0 ok_def
    by (simp add: s0_def delete_links_def kept_def)
  show ?thesis
  proof (cases "list_all ok (map refrow ls)")
    case False
    then have all: "\<not> list_all ok (map refrow ls @ map backrow ls)" by simp
    from False have "updateLinks note s =
        (Inl (SqliteError SQLITE_CONSTRAINT_FOREIGNKEY),
         s\<lparr>links_table := kept @ takeWhile ok (map refrow ls)\<rparr>)"
      unfolding upd first by simp
    also have "takeWhile ok (map refrow ls) = takeWhile ok (map refrow ls @ map backrow ls)"
      using False by (rule takeWhile_append_stop [symmetric])
    finally show ?thesis
      unfolding rows using all by (simp only: ok_def kept_def if_False)
  next
    case True
    define s1 where "s1 = s\<lparr>links_table := kept @ map refrow ls\<rparr>"
    have tr: "takeWhile ok (map refrow ls) = map refrow ls"
      using True by (simp add: list_all_iff)
    have s1: "foreign_keys s1 = foreign_keys s" "notes_table s1 = notes_table s"
      "links_table s1 = kept @ map refrow ls"
      by (simp_all add: s1_def)
    have second: "forEach (\<lambda>l. insert_links (backrow l)) ls s1 =
        (if list_all ok (map backrow ls) then Inr ()
         else Inl (SqliteError SQLITE_CONSTRAINT_FOREIGNKEY),
         s\<lparr>links_table := (kept @ map refrow ls) @ takeWhile ok (map backrow ls)\<rparr>)"
      unfolding forEach_insert_links_result s1 ok_def
      by (simp add: s1_def)
    have "updateLinks note s = forEach (\<lambda>l. insert_links (backrow l)) ls s1"
      unfolding upd first tr s1_def using True by simp
    also note second
    also have "(kept @ map refrow ls) @ takeWhile ok (map backrow ls)
                 = kept @ takeWhile ok (map refrow ls @ map backrow ls)"
      using True by (simp only: takeWhile_append_all append_assoc)
    also have "list_all ok (map backrow ls) = list_all ok (map refrow ls @ map backrow ls)"
      using True by simp
    finally show ?thesis
      unfolding rows by (simp only: ok_def kept_def)
  qed
qed

subsection \<open>Create, then read\<close>


lemma createNote_unfold:
  "createNote h title content tags s =
     (if \<not> ensureDir_ok h then (Inl (FsError (vaultPath s)), s)
      else if \<not> writeFile_ok h (note_path (newNote h s title content tags))
      then (Inl (FsError (note_path (newNote h s title content tags))), s)
      else
        (case insert_notes (notes_row_of (newNote h s title content tags))
                (s\<lparr>files := (files s)(note_path (newNote h s title content tags) \<mapsto>
                                 formatNoteAsMarkdown (newNote h s title content tags))\<rparr>) of
           Inl e \<Rightarrow>
             (Inl e, s\<lparr>files := (files s)(note_path (newNote h s title content tags) \<mapsto>
                                 formatNoteAsMarkdown (newNote h s title content tags))\<rparr>)
         | Inr s2 \<Rightarrow>
             (case updateLinks (newNote h s title content tags)
                     (indexNoteInFTS (newNote h s title content tags) s2) of
                (Inl e, s3) \<Rightarrow> (Inl e, s3)
              | (Inr u, s3) \<Rightarrow> (Inr (newNote h s title content tags), s3))))"
  by (simp add: createNote_def newNote_def notes_row_of_def Let_def cong: sum.case_cong)







subsection \<open>Update: what stays and what moves\<close>

lemma find_map_same_key:
  assumes "\<And>r. key (g r) = key r"
  shows "find (\<lambda>r. key r = k) (map (\<lambda>r. if key r = k then g r else r) xs)
         = map_option g (find (\<lambda>r. key r = k) xs)"
  using assms by (induction xs) auto

lemma updateNote_notes_table:
  assumes "readNote noteId s = Some note"
  shows "notes_table (snd (updateNote h noteId updates s)) =
           notes_table
             (update_notes (spread (note_title note) (req_title updates))
                (spread (note_content note) (req_content updates))
                (spread (note_tags note) (req_tags updates)) (now h) noteId s)"
  using assms
  by (simp add: updateNote_def Let_def snd_rethrow updateLinks_preserves
        indexNoteInFTS_def insert_or_replace_notes_fts_def)

text \<open>
  Claim C8, as amended. For a note that exists and any partial update, the row that
  \<^verbatim>\<open>updateNote\<close> leaves in the \<^verbatim>\<open>notes\<close> table under that id has the id and the creation time
  it had before, and no id or creation time of any row has changed. Its modification
  time is the reading of the clock taken by the call, whatever the time stored before.
\<close>

theorem updateNote_keeps_id_and_created:
  assumes "readNote noteId s = Some note"
  shows "\<exists>n. readNote noteId (snd (updateNote h noteId updates s)) = Some n
             \<and> note_id n = note_id note
             \<and> note_created n = note_created note
             \<and> note_modified n = now h
             \<and> map col_id (notes_table (snd (updateNote h noteId updates s)))
                 = map col_id (notes_table s)
             \<and> map col_created (notes_table (snd (updateNote h noteId updates s)))
                 = map col_created (notes_table s)"
proof -
  let ?g = "\<lambda>row. row\<lparr>col_title := spread (note_title note) (req_title updates),
                        col_content := spread (note_content note) (req_content updates),
                        col_tags := Some (spread (note_tags note) (req_tags updates)),
                        col_modified := now h\<rparr>"
  let ?t = "snd (updateNote h noteId updates s)"
  have tbl: "notes_table ?t = map (\<lambda>row. if col_id row = noteId then ?g row else row) (notes_table s)"
    using updateNote_notes_table [OF assms(1)] by (simp add: update_notes_def)
  from assms(1) obtain row where row: "find (\<lambda>r. col_id r = noteId) (notes_table s) = Some row"
    and nt: "note_id note = col_id row" "note_created note = col_created row"
    by (auto simp: readNote_def select_notes_def split: option.splits)
  have "find (\<lambda>r. col_id r = noteId) (notes_table ?t)
          = map_option ?g (find (\<lambda>r. col_id r = noteId) (notes_table s))"
    unfolding tbl by (rule find_map_same_key) simp
  also have "\<dots> = Some (?g row)"
    by (simp only: row option.map)
  finally have rd: "readNote noteId ?t =
      Some \<lparr>note_id = col_id row, note_title = spread (note_title note) (req_title updates),
            note_content = spread (note_content note) (req_content updates),
            note_path = col_path row,
            note_tags = spread (note_tags note) (req_tags updates),
            note_created = col_created row, note_modified = now h, note_links = []\<rparr>"
    by (simp add: readNote_def select_notes_def)
  have ids: "map col_id (notes_table ?t) = map col_id (notes_table s)"
    unfolding tbl by (induction "notes_table s") auto
  have cr: "map col_created (notes_table ?t) = map col_created (notes_table s)"
    unfolding tbl by (induction "notes_table s") auto
  show ?thesis using rd nt ids cr by simp
qed

theorem updateNote_keeps_id_and_created_witness:
  "readNote ''a'' (note_A_store True) =
     Some \<lparr>note_id = ''a'', note_title = ''A'', note_content = ''old text'',
           note_path = ''/vault/A.md'', note_tags = [''t''], note_created = 1000,
           note_modified = 1000, note_links = []\<rparr>
   \<and> readNote ''a'' (snd (updateNote (vault_host 2000 True) ''a'' (new_content ''new text'')
                            (note_A_store True))) =
     Some \<lparr>note_id = ''a'', note_title = ''A'', note_content = ''new text'',
           note_path = ''/vault/A.md'', note_tags = [''t''], note_created = 1000,
           note_modified = 2000, note_links = []\<rparr>
   \<and> map col_id (notes_table (snd (updateNote (vault_host 2000 True) ''a''
                                      (new_content ''new text'') (note_A_store True))))
       = map col_id (notes_table (note_A_store True))
   \<and> map col_created (notes_table (snd (updateNote (vault_host 2000 True) ''a''
                                           (new_content ''new text'') (note_A_store True))))
       = map col_created (notes_table (note_A_store True))"
proof -
  let ?note = "\<lparr>note_id = ''a'', note_title = ''A'', note_content = ''old text'',
           note_path = ''/vault/A.md'', note_tags = [''t''], note_created = 1000,
           note_modified = 1000, note_links = []\<rparr>"
  have h1: "readNote ''a'' (note_A_store True) = Some ?note"
    by code_simp
  have after: "readNote ''a'' (snd (updateNote (vault_host 2000 True) ''a''
                  (new_content ''new text'') (note_A_store True))) =
     Some \<lparr>note_id = ''a'', note_title = ''A'', note_content = ''new text'',
           note_path = ''/vault/A.md'', note_tags = [''t''], note_created = 1000,
           note_modified = 2000, note_links = []\<rparr>"
    by code_simp
  from updateNote_keeps_id_and_created
         [OF h1, of "vault_host 2000 True" "new_content ''new text''"] h1 after
  show ?thesis by simp
qed

text \<open>
  Claim C8 as stated fails: nothing compares the clock with the stored time. An update
  made when the clock reads 500 takes the modification time of the note from 1000 to 500.
\<close>

theorem updateNote_clock_set_back_counterexample:
  "map_option note_modified (readNote ''a'' (note_A_store True)) = Some 1000
   \<and> fst (updateNote (vault_host 500 True) ''a'' (new_content ''new text'')
            (note_A_store True)) =
       Inr \<lparr>note_id = ''a'', note_title = ''A'', note_content = ''new text'',
            note_path = ''/vault/A.md'', note_tags = [''t''], note_created = 1000,
            note_modified = 500, note_links = []\<rparr>
   \<and> map_option note_modified
         (readNote ''a'' (snd (updateNote (vault_host 500 True) ''a''
                                 (new_content ''new text'') (note_A_store True)))) = Some 500
   \<and> (500::int) < 1000"
  by code_simp

subsection \<open>Delete: edges and search entry go with the note\<close>

lemma find_filter_other:
  "find (\<lambda>r. key r = k) (filter (\<lambda>r. key r \<noteq> k) xs) = None"
  by (induction xs) auto

text \<open>
  Claim C3. On a connection that enforces foreign keys, \<^verbatim>\<open>deleteNote(id)\<close> on a note that
  exists returns true and removes exactly the rows of \<^verbatim>\<open>links\<close> that have the id as origin
  or as target, and the rows of \<^verbatim>\<open>notes_fts\<close> with that id: afterwards no edge row mentions
  the id, no search entry has it, and the note cannot be read.
\<close>

theorem deleteNote_removes_edges_and_entry:
  assumes "foreign_keys s"
    and "readNote noteId s = Some note"
  shows "fst (deleteNote h noteId s)
         \<and> links_table (snd (deleteNote h noteId s))
             = filter (\<lambda>l. from_id l \<noteq> noteId \<and> to_id l \<noteq> noteId) (links_table s)
         \<and> notes_fts (snd (deleteNote h noteId s))
             = filter (\<lambda>e. fts_id e \<noteq> noteId) (notes_fts s)
         \<and> filter (\<lambda>l. from_id l = noteId \<or> to_id l = noteId)
              (links_table (snd (deleteNote h noteId s))) = []
         \<and> filter (\<lambda>e. fts_id e = noteId) (notes_fts (snd (deleteNote h noteId s))) = []
         \<and> readNote noteId (snd (deleteNote h noteId s)) = None"
  using assms
  by (auto simp: deleteNote_def Let_def delete_notes_def delete_notes_fts_def
        readNote_def select_notes_def find_filter_other filter_empty_conv)

theorem deleteNote_removes_edges_and_entry_witness:
  "foreign_keys (linked_store True)
   \<and> map (\<lambda>l. (from_id l, to_id l, col_type l)) (links_table (linked_store True)) =
       [(''b'', ''a'', reference), (''b'', ''a'', reference),
        (''a'', ''b'', backlink), (''a'', ''b'', backlink)]
   \<and> map fts_id (notes_fts (linked_store True)) = [''a'', ''b'']
   \<and> fst (deleteNote (vault_host 3000 True) ''a'' (linked_store True))
   \<and> links_table (snd (deleteNote (vault_host 3000 True) ''a'' (linked_store True))) = []
   \<and> map fts_id (notes_fts (snd (deleteNote (vault_host 3000 True) ''a'' (linked_store True))))
       = [''b'']
   \<and> readNote ''a'' (snd (deleteNote (vault_host 3000 True) ''a'' (linked_store True))) = None"
proof -
  let ?note = "\<lparr>note_id = ''a'', note_title = ''A'', note_content = ''old text'',
           note_path = ''/vault/A.md'', note_tags = [''t''], note_created = 1000,
           note_modified = 1000, note_links = []\<rparr>"
  have h1: "foreign_keys (linked_store True)" by code_simp
  have h2: "readNote ''a'' (linked_store True) = Some ?note" by code_simp
  have before: "map (\<lambda>l. (from_id l, to_id l, col_type l)) (links_table (linked_store True)) =
       [(''b'', ''a'', reference), (''b'', ''a'', reference),
        (''a'', ''b'', backlink), (''a'', ''b'', backlink)]"
    by code_simp
  have fts: "map fts_id (notes_fts (linked_store True)) = [''a'', ''b'']"
    by code_simp
  have l: "links_table (snd (deleteNote (vault_host 3000 True) ''a'' (linked_store True))) = []"
    by code_simp
  have f: "map fts_id (notes_fts (snd (deleteNote (vault_host 3000 True) ''a''
             (linked_store True)))) = [''b'']"
    by code_simp
  from deleteNote_removes_edges_and_entry [OF h1 h2, of "vault_host 3000 True"] h1 before fts l f
  show ?thesis by simp
qed

subsection \<open>Failures and the three relations\<close>

lemma forEach_insert_links_error:
  "forEach (\<lambda>x. insert_links (g x)) xs s = (Inl e, s')
     \<Longrightarrow> e = SqliteError SQLITE_CONSTRAINT_FOREIGNKEY"
proof (induction xs arbitrary: s)
  case Nil
  then show ?case by simp
next
  case (Cons x xs)
  show ?case
  proof (cases "insert_links (g x) s")
    case (Inl e')
    with Cons.prems show ?thesis
      by (auto simp: insert_links_def split: if_splits)
  next
    case (Inr t)
    with Cons.prems have "forEach (\<lambda>x. insert_links (g x)) xs t = (Inl e, s')" by simp
    then show ?thesis by (rule Cons.IH)
  qed
qed

lemma updateLinks_error:
  assumes "updateLinks note s = (Inl e, s')"
  shows "e = SqliteError SQLITE_CONSTRAINT_FOREIGNKEY"
proof -
  let ?f = "\<lambda>link. \<lparr>from_id = note_id note, to_id = link_to link,
               col_type = link_type link, col_context = link_context link\<rparr>"
  let ?b = "\<lambda>link. \<lparr>from_id = link_to link, to_id = note_id note,
               col_type = backlink, col_context = []\<rparr>"
  obtain r t where r: "forEach (\<lambda>x. insert_links (?f x)) (note_links note)
                         (delete_links (note_id note) s) = (r, t)"
    by (cases "forEach (\<lambda>x. insert_links (?f x)) (note_links note)
                 (delete_links (note_id note) s)") blast
  show ?thesis
  proof (cases r)
    case (Inl e')
    with r assms have "e' = e" by (simp add: updateLinks_def)
    with r Inl show ?thesis using forEach_insert_links_error [where g = ?f] by blast
  next
    case (Inr u)
    with r assms have "forEach (\<lambda>x. insert_links (?b x)) (note_links note) t = (Inl e, s')"
      by (simp add: updateLinks_def createBacklinks_def insert_or_ignore_links_eq)
    then show ?thesis by (rule forEach_insert_links_error [where g = ?b])
  qed
qed

lemma createNote_early_failure:
  assumes "createNote h title content tags s = (Inl e, s')"
    and "e \<noteq> SqliteError SQLITE_CONSTRAINT_FOREIGNKEY"
  shows "notes_table s' = notes_table s \<and> links_table s' = links_table s
         \<and> notes_fts s' = notes_fts s"
proof (cases "ensureDir_ok h \<and> writeFile_ok h (path_join h (vaultPath s) (title @ ''.md''))")
  case False
  with assms(1) show ?thesis
    by (auto simp: createNote_def Let_def split: if_splits)
next
  case True
  let ?path = "path_join h (vaultPath s) (title @ ''.md'')"
  let ?note = "\<lparr>note_id = slug title, note_title = title, note_content = content,
                  note_path = ?path, note_tags = tags,
                  note_created = now h, note_modified = now h,
                  note_links = extractLinks content\<rparr>"
  let ?s1 = "s\<lparr>files := (files s)(?path \<mapsto> formatNoteAsMarkdown ?note)\<rparr>"
  let ?row = "\<lparr>col_id = slug title, col_title = title, col_content = content,
               col_path = ?path, col_tags = Some tags,
               col_created = now h, col_modified = now h\<rparr>"
  show ?thesis
  proof (cases "insert_notes ?row ?s1")
    case (Inl e')
    with True assms(1) have "s' = ?s1"
      by (simp add: createNote_def Let_def)
    then show ?thesis by simp
  next
    case (Inr s2)
    obtain r t where r: "updateLinks ?note (indexNoteInFTS ?note s2) = (r, t)"
      by (cases "updateLinks ?note (indexNoteInFTS ?note s2)") blast
    with True Inr assms(1) have "r = Inl e"
      by (cases r) (simp_all add: createNote_def Let_def)
    with r have "e = SqliteError SQLITE_CONSTRAINT_FOREIGNKEY"
      using updateLinks_error by blast
    with assms(2) show ?thesis by simp
  qed
qed

lemma updateNote_not_found:
  assumes "updateNote h noteId updates s = (Inl (Error msg), s')"
  shows "s' = s"
proof (cases "readNote noteId s")
  case None
  with assms show ?thesis by (simp add: updateNote_def)
next
  case (Some old)
  let ?u = "\<lparr>note_id = note_id old,
                  note_title = spread (note_title old) (req_title updates),
                  note_content = spread (note_content old) (req_content updates),
                  note_path = spread (note_path old) (req_path updates),
                  note_tags = spread (note_tags old) (req_tags updates),
                  note_created = note_created old,
                  note_modified = now h,
                  note_links =
                    extractLinks
                      (case req_content updates of
                         None \<Rightarrow> note_content old
                       | Some c \<Rightarrow> if c = [] then note_content old else c)\<rparr>"
  let ?s1 = "update_notes (note_title ?u) (note_content ?u) (note_tags ?u) (note_modified ?u)
               noteId s"
  let ?s2 = "?s1\<lparr>files := (files ?s1)(note_path ?u \<mapsto> formatNoteAsMarkdown ?u)\<rparr>"
  show ?thesis
  proof (cases "writeFile_ok h (note_path ?u)")
    case False
    with Some assms show ?thesis by (simp add: updateNote_def Let_def)
  next
    case True
    obtain r t where r: "updateLinks ?u (indexNoteInFTS ?u ?s2) = (r, t)"
      by (cases "updateLinks ?u (indexNoteInFTS ?u ?s2)") blast
    with True Some assms have "r = Inl (Error msg)"
      by (cases r) (simp_all add: updateNote_def Let_def)
    with r have "Error msg = SqliteError SQLITE_CONSTRAINT_FOREIGNKEY"
      using updateLinks_error by blast
    then show ?thesis by simp
  qed
qed

lemma createNote_foreign_key_failure:
  assumes "createNote h title content tags s
             = (Inl (SqliteError SQLITE_CONSTRAINT_FOREIGNKEY), s1)"
  shows "notes_table s1 = notes_table s @ [notes_row_of (newNote h s title content tags)]
         \<and> notes_fts s1 = notes_fts s @ [fts_row_of (newNote h s title content tags)]
         \<and> links_table s1 =
             filter (\<lambda>l. from_id l \<noteq> slug title) (links_table s)
             @ takeWhile (foreign_key_ok (foreign_keys s)
                            (map col_id (notes_table s) @ [slug title]))
                 (link_rows (newNote h s title content tags))"
proof -
  define n where "n = newNote h s title content tags"
  define s1' where "s1' = s\<lparr>files := (files s)(note_path n \<mapsto> formatNoteAsMarkdown n)\<rparr>"
  have nid: "note_id n = slug title" by (simp add: n_def newNote_def)
  from assms have fs: "ensureDir_ok h" "writeFile_ok h (note_path n)"
    unfolding createNote_unfold n_def by (auto split: if_splits)
  show ?thesis
  proof (cases "insert_notes (notes_row_of n) s1'")
    case (Inl e)
    then have "e = SqliteError SQLITE_CONSTRAINT_UNIQUE
               \<or> e = SqliteError SQLITE_CONSTRAINT_PRIMARYKEY"
      by (auto simp: insert_notes_def split: if_splits)
    moreover from Inl fs assms have "e = SqliteError SQLITE_CONSTRAINT_FOREIGNKEY"
      unfolding createNote_unfold by (simp add: n_def [symmetric] s1'_def [symmetric])
    ultimately show ?thesis by auto
  next
    case (Inr s2)
    then have s2: "s2 = s1'\<lparr>notes_table := notes_table s1' @ [notes_row_of n]\<rparr>"
      by (auto simp: insert_notes_def split: if_splits)
    define s3 where "s3 = indexNoteInFTS n s2"
    have s3: "foreign_keys s3 = foreign_keys s"
      "notes_table s3 = notes_table s @ [notes_row_of n]"
      "notes_fts s3 = notes_fts s @ [fts_row_of n]"
      "links_table s3 = links_table s"
      by (simp_all add: s3_def s2 s1'_def indexNoteInFTS_def insert_or_replace_notes_fts_def
            fts_row_of_def)
    from Inr fs assms have "s1 = snd (updateLinks n s3)"
      unfolding createNote_unfold
      by (simp add: n_def [symmetric] s1'_def [symmetric] s3_def [symmetric]
            split: prod.splits sum.splits)
    then show ?thesis
      unfolding updateLinks_result
      by (simp add: s3 nid n_def [symmetric] notes_row_of_def)
  qed
qed

lemma updateNote_unfold:
  assumes "readNote noteId s = Some old"
  shows "updateNote h noteId updates s =
     (if \<not> writeFile_ok h (note_path (updatedNote h old updates))
      then (Inl (FsError (note_path (updatedNote h old updates))),
            update_notes (note_title (updatedNote h old updates))
              (note_content (updatedNote h old updates))
              (note_tags (updatedNote h old updates)) (now h) noteId s)
      else
        (case updateLinks (updatedNote h old updates)
                (indexNoteInFTS (updatedNote h old updates)
                   ((update_notes (note_title (updatedNote h old updates))
                       (note_content (updatedNote h old updates))
                       (note_tags (updatedNote h old updates)) (now h) noteId s)
                    \<lparr>files := (files s)(note_path (updatedNote h old updates) \<mapsto>
                                 formatNoteAsMarkdown (updatedNote h old updates))\<rparr>)) of
           (Inl e, s3) \<Rightarrow> (Inl e, s3)
         | (Inr u, s3) \<Rightarrow> (Inr (updatedNote h old updates), s3)))"
  using assms
  by (simp add: updateNote_def updatedNote_def update_notes_def Let_def
        cong: if_cong sum.case_cong)

lemma readNote_id:
  "readNote noteId s = Some old \<Longrightarrow> note_id old = noteId"
  by (auto simp: readNote_def select_notes_def split: option.splits dest: find_Some_iff [THEN iffD1])

lemma update_notes_ids:
  "map col_id (notes_table (update_notes title content tags modified noteId s))
     = map col_id (notes_table s)"
  by (induction "notes_table s" arbitrary: s) (auto simp: update_notes_def)

lemma updateNote_foreign_key_failure:
  assumes "updateNote h noteId updates s
             = (Inl (SqliteError SQLITE_CONSTRAINT_FOREIGNKEY), s2)"
    and "readNote noteId s = Some old"
  shows "notes_table s2 =
           notes_table (update_notes (note_title (updatedNote h old updates))
              (note_content (updatedNote h old updates))
              (note_tags (updatedNote h old updates)) (now h) noteId s)
         \<and> notes_fts s2 = notes_fts s @ [fts_row_of (updatedNote h old updates)]
         \<and> links_table s2 =
             filter (\<lambda>l. from_id l \<noteq> noteId) (links_table s)
             @ takeWhile (foreign_key_ok (foreign_keys s) (map col_id (notes_table s)))
                 (link_rows (updatedNote h old updates))"
proof -
  define u where "u = updatedNote h old updates"
  define s1 where "s1 = update_notes (note_title u) (note_content u) (note_tags u) (now h) noteId s"
  define s3 where "s3 = indexNoteInFTS u (s1\<lparr>files := (files s)(note_path u \<mapsto>
                                 formatNoteAsMarkdown u)\<rparr>)"
  have uid: "note_id u = noteId"
    using readNote_id [OF assms(2)] by (simp add: u_def updatedNote_def)
  have s3: "foreign_keys s3 = foreign_keys s"
    "notes_table s3 = notes_table s1"
    "notes_fts s3 = notes_fts s @ [fts_row_of u]"
    "links_table s3 = links_table s"
    by (simp_all add: s3_def s1_def update_notes_def indexNoteInFTS_def
          insert_or_replace_notes_fts_def fts_row_of_def)
  have ids: "map col_id (notes_table s1) = map col_id (notes_table s)"
    unfolding s1_def by (rule update_notes_ids)
  from assms(1) have w: "writeFile_ok h (note_path u)"
    unfolding updateNote_unfold [OF assms(2)] u_def by (auto split: if_splits)
  with assms(1) have "s2 = snd (updateLinks u s3)"
    unfolding updateNote_unfold [OF assms(2)]
    by (simp add: u_def [symmetric] s1_def [symmetric] s3_def [symmetric]
          split: prod.splits sum.splits)
  then show ?thesis
    unfolding updateLinks_result
    by (simp add: s3 ids uid u_def [symmetric] s1_def [symmetric])
qed

lemma outcome_Some: "outcome r = (Some e, s') \<longleftrightarrow> r = (Inl e, s')"
  by (cases r) (auto simp: outcome_def split: sum.splits)

text \<open>
  Claim C1, as amended. The writes of an operation are separate statements with nothing
  to undo them. An operation that fails before its first write to the database (a create
  that fails on the vault directory, on the mirror file or on the row of \<^verbatim>\<open>notes\<close>; an
  update of an id that is not found) leaves the \<^verbatim>\<open>notes\<close>, \<^verbatim>\<open>links\<close> and \<^verbatim>\<open>notes_fts\<close>
  tables as they were; a delete does not fail. A create or an update that ends in a
  foreign key error leaves what it wrote before the refused row: the row of \<^verbatim>\<open>notes\<close>
  (inserted or updated), the new row of \<^verbatim>\<open>notes_fts\<close>, and in \<^verbatim>\<open>links\<close> the old rows of
  other origins followed by the rows that were inserted before the refused one.
\<close>

theorem failed_operation_keeps_earlier_writes:
  "(run_operation h operation s = (Some e, s') \<and> fails_before_store_write operation e
      \<longrightarrow> notes_table s' = notes_table s \<and> links_table s' = links_table s
          \<and> notes_fts s' = notes_fts s)
   \<and> fst (run_operation h (DeleteNote noteId) s) = None
   \<and> (run_operation h (CreateNote title content tags) s
         = (Some (SqliteError SQLITE_CONSTRAINT_FOREIGNKEY), s1)
      \<longrightarrow> notes_table s1 = notes_table s @ [notes_row_of (newNote h s title content tags)]
          \<and> notes_fts s1 = notes_fts s @ [fts_row_of (newNote h s title content tags)]
          \<and> links_table s1 =
              filter (\<lambda>l. from_id l \<noteq> slug title) (links_table s)
              @ takeWhile (foreign_key_ok (foreign_keys s)
                             (map col_id (notes_table s) @ [slug title]))
                  (link_rows (newNote h s title content tags)))
   \<and> (run_operation h (UpdateNote target updates) s
         = (Some (SqliteError SQLITE_CONSTRAINT_FOREIGNKEY), s2)
       \<and> readNote target s = Some old
      \<longrightarrow> notes_table s2 =
            notes_table (update_notes (note_title (updatedNote h old updates))
               (note_content (updatedNote h old updates))
               (note_tags (updatedNote h old updates)) (now h) target s)
          \<and> notes_fts s2 = notes_fts s @ [fts_row_of (updatedNote h old updates)]
          \<and> links_table s2 =
              filter (\<lambda>l. from_id l \<noteq> target) (links_table s)
              @ takeWhile (foreign_key_ok (foreign_keys s) (map col_id (notes_table s)))
                  (link_rows (updatedNote h old updates)))"
proof (intro conjI impI)
  assume a: "run_operation h operation s = (Some e, s') \<and> fails_before_store_write operation e"
  have "notes_table s' = notes_table s \<and> links_table s' = links_table s
        \<and> notes_fts s' = notes_fts s"
  proof (cases operation)
    case (CreateNote t c g)
    with a have "createNote h t c g s = (Inl e, s')"
      by (simp add: run_operation_def outcome_Some)
    moreover from CreateNote a have "e \<noteq> SqliteError SQLITE_CONSTRAINT_FOREIGNKEY"
      by (simp add: fails_before_store_write_def)
    ultimately show ?thesis by (rule createNote_early_failure)
  next
    case (UpdateNote i u)
    with a obtain msg where "e = Error msg"
      by (cases e) (simp_all add: fails_before_store_write_def)
    with UpdateNote a have "updateNote h i u s = (Inl (Error msg), s')"
      by (simp add: run_operation_def outcome_Some)
    then have "s' = s" by (rule updateNote_not_found)
    then show ?thesis by simp
  next
    case (DeleteNote i)
    with a show ?thesis by (simp add: run_operation_def)
  qed
  then show "notes_table s' = notes_table s" "links_table s' = links_table s"
    "notes_fts s' = notes_fts s" by simp_all
next
  show "fst (run_operation h (DeleteNote noteId) s) = None"
    by (simp add: run_operation_def)
next
  assume "run_operation h (CreateNote title content tags) s
            = (Some (SqliteError SQLITE_CONSTRAINT_FOREIGNKEY), s1)"
  then have "createNote h title content tags s
               = (Inl (SqliteError SQLITE_CONSTRAINT_FOREIGNKEY), s1)"
    by (simp add: run_operation_def outcome_Some)
  from createNote_foreign_key_failure [OF this]
  show "notes_table s1 = notes_table s @ [notes_row_of (newNote h s title content tags)]"
    "notes_fts s1 = notes_fts s @ [fts_row_of (newNote h s title content tags)]"
    "links_table s1 =
       filter (\<lambda>l. from_id l \<noteq> slug title) (links_table s)
       @ takeWhile (foreign_key_ok (foreign_keys s)
                      (map col_id (notes_table s) @ [slug title]))
           (link_rows (newNote h s title content tags))"
    by simp_all
next
  assume a: "run_operation h (UpdateNote target updates) s
            = (Some (SqliteError SQLITE_CONSTRAINT_FOREIGNKEY), s2)
          \<and> readNote target s = Some old"
  then have "updateNote h target updates s
               = (Inl (SqliteError SQLITE_CONSTRAINT_FOREIGNKEY), s2)"
    by (simp add: run_operation_def outcome_Some)
  from updateNote_foreign_key_failure [OF this] a
  show "notes_table s2 =
            notes_table (update_notes (note_title (updatedNote h old updates))
               (note_content (updatedNote h old updates))
               (note_tags (updatedNote h old updates)) (now h) target s)"
    "notes_fts s2 = notes_fts s @ [fts_row_of (updatedNote h old updates)]"
    "links_table s2 =
       filter (\<lambda>l. from_id l \<noteq> target) (links_table s)
       @ takeWhile (foreign_key_ok (foreign_keys s) (map col_id (notes_table s)))
           (link_rows (updatedNote h old updates))"
    by simp_all
qed

theorem failed_operation_keeps_earlier_writes_witness:
  "run_operation (vault_host 2000 True) (CreateNote ''a'' ''other text'' []) (note_A_store True)
     = (Some (SqliteError SQLITE_CONSTRAINT_PRIMARYKEY),
        snd (run_operation (vault_host 2000 True) (CreateNote ''a'' ''other text'' [])
               (note_A_store True)))
   \<and> fails_before_store_write (CreateNote ''a'' ''other text'' [])
         (SqliteError SQLITE_CONSTRAINT_PRIMARYKEY)
   \<and> notes_table (snd (run_operation (vault_host 2000 True) (CreateNote ''a'' ''other text'' [])
                          (note_A_store True))) = notes_table (note_A_store True)
   \<and> links_table (snd (run_operation (vault_host 2000 True) (CreateNote ''a'' ''other text'' [])
                          (note_A_store True))) = links_table (note_A_store True)
   \<and> notes_fts (snd (run_operation (vault_host 2000 True) (CreateNote ''a'' ''other text'' [])
                        (note_A_store True))) = notes_fts (note_A_store True)
   \<and> fst (run_operation (vault_host 2000 True)
            (CreateNote ''B'' ''[[a]] then [[zz]] then [[a]]'' []) (note_A_store True))
       = Some (SqliteError SQLITE_CONSTRAINT_FOREIGNKEY)
   \<and> notes_table (snd (run_operation (vault_host 2000 True)
                          (CreateNote ''B'' ''[[a]] then [[zz]] then [[a]]'' [])
                          (note_A_store True)))
       = notes_table (note_A_store True)
         @ [\<lparr>col_id = ''b'', col_title = ''B'',
             col_content = ''[[a]] then [[zz]] then [[a]]'', col_path = ''/vault/B.md'',
             col_tags = Some [], col_created = 2000, col_modified = 2000\<rparr>]
   \<and> notes_fts (snd (run_operation (vault_host 2000 True)
                        (CreateNote ''B'' ''[[a]] then [[zz]] then [[a]]'' [])
                        (note_A_store True)))
       = notes_fts (note_A_store True)
         @ [\<lparr>fts_id = ''b'', fts_title = ''B'',
             fts_content = ''[[a]] then [[zz]] then [[a]]''\<rparr>]
   \<and> links_table (snd (run_operation (vault_host 2000 True)
                          (CreateNote ''B'' ''[[a]] then [[zz]] then [[a]]'' [])
                          (note_A_store True)))
       = [\<lparr>from_id = ''b'', to_id = ''a'', col_type = reference, col_context = ''[[a]]''\<rparr>]
   \<and> fst (run_operation (vault_host 3000 True) (UpdateNote ''a'' (new_content ''see [[zz]]''))
            (note_A_store True))
       = Some (SqliteError SQLITE_CONSTRAINT_FOREIGNKEY)
   \<and> map col_content
         (notes_table (snd (run_operation (vault_host 3000 True)
                              (UpdateNote ''a'' (new_content ''see [[zz]]''))
                              (note_A_store True)))) = [''see [[zz]]'']
   \<and> map fts_content
         (notes_fts (snd (run_operation (vault_host 3000 True)
                            (UpdateNote ''a'' (new_content ''see [[zz]]''))
                            (note_A_store True)))) = [''old text'', ''see [[zz]]'']"
proof -
  let ?h = "vault_host 2000 True"
  let ?s = "note_A_store True"
  let ?dup = "run_operation ?h (CreateNote ''a'' ''other text'' []) ?s"
  let ?dangling = "run_operation ?h (CreateNote ''B'' ''[[a]] then [[zz]] then [[a]]'' []) ?s"
  let ?upd = "run_operation (vault_host 3000 True)
                (UpdateNote ''a'' (new_content ''see [[zz]]'')) ?s"
  let ?old = "\<lparr>note_id = ''a'', note_title = ''A'', note_content = ''old text'',
           note_path = ''/vault/A.md'', note_tags = [''t''], note_created = 1000,
           note_modified = 1000, note_links = []\<rparr>"
  have "fst ?dup = Some (SqliteError SQLITE_CONSTRAINT_PRIMARYKEY)" by code_simp
  then have d1: "?dup = (Some (SqliteError SQLITE_CONSTRAINT_PRIMARYKEY), snd ?dup)"
    by (metis prod.collapse)
  have d2: "fails_before_store_write (CreateNote ''a'' ''other text'' [])
              (SqliteError SQLITE_CONSTRAINT_PRIMARYKEY)"
    by (simp add: fails_before_store_write_def)
  have c0: "fst ?dangling = Some (SqliteError SQLITE_CONSTRAINT_FOREIGNKEY)" by code_simp
  then have c1: "?dangling = (Some (SqliteError SQLITE_CONSTRAINT_FOREIGNKEY), snd ?dangling)"
    by (metis prod.collapse)
  have u0: "fst ?upd = Some (SqliteError SQLITE_CONSTRAINT_FOREIGNKEY)" by code_simp
  then have u1: "?upd = (Some (SqliteError SQLITE_CONSTRAINT_FOREIGNKEY), snd ?upd)"
    by (metis prod.collapse)
  have u2: "readNote ''a'' ?s = Some ?old" by code_simp
  have row: "notes_row_of (newNote ?h ?s ''B'' ''[[a]] then [[zz]] then [[a]]'' [])
      = \<lparr>col_id = ''b'', col_title = ''B'',
             col_content = ''[[a]] then [[zz]] then [[a]]'', col_path = ''/vault/B.md'',
             col_tags = Some [], col_created = 2000, col_modified = 2000\<rparr>"
    by code_simp
  have entry: "fts_row_of (newNote ?h ?s ''B'' ''[[a]] then [[zz]] then [[a]]'' [])
      = \<lparr>fts_id = ''b'', fts_title = ''B'',
             fts_content = ''[[a]] then [[zz]] then [[a]]''\<rparr>"
    by code_simp
  have rows: "filter (\<lambda>l. from_id l \<noteq> slug ''B'') (links_table ?s)
              @ takeWhile (foreign_key_ok (foreign_keys ?s)
                             (map col_id (notes_table ?s) @ [slug ''B'']))
                  (link_rows (newNote ?h ?s ''B'' ''[[a]] then [[zz]] then [[a]]'' []))
      = [\<lparr>from_id = ''b'', to_id = ''a'', col_type = reference, col_context = ''[[a]]''\<rparr>]"
    by code_simp
  have un: "map col_content (notes_table (update_notes
               (note_title (updatedNote (vault_host 3000 True) ?old (new_content ''see [[zz]]'')))
               (note_content (updatedNote (vault_host 3000 True) ?old (new_content ''see [[zz]]'')))
               (note_tags (updatedNote (vault_host 3000 True) ?old (new_content ''see [[zz]]'')))
               (now (vault_host 3000 True)) ''a'' ?s)) = [''see [[zz]]'']"
    by code_simp
  have uf: "map fts_content (notes_fts ?s
              @ [fts_row_of (updatedNote (vault_host 3000 True) ?old
                               (new_content ''see [[zz]]''))])
            = [''old text'', ''see [[zz]]'']"
    by code_simp
  have early: "notes_table (snd ?dup) = notes_table ?s \<and> links_table (snd ?dup) = links_table ?s
               \<and> notes_fts (snd ?dup) = notes_fts ?s"
    using failed_operation_keeps_earlier_writes
            [of ?h "CreateNote ''a'' ''other text'' []" ?s
                "SqliteError SQLITE_CONSTRAINT_PRIMARYKEY" "snd ?dup"] d1 d2
    by blast
  have late: "notes_table (snd ?dangling) = notes_table ?s
                @ [notes_row_of (newNote ?h ?s ''B'' ''[[a]] then [[zz]] then [[a]]'' [])]
              \<and> notes_fts (snd ?dangling) = notes_fts ?s
                @ [fts_row_of (newNote ?h ?s ''B'' ''[[a]] then [[zz]] then [[a]]'' [])]
              \<and> links_table (snd ?dangling) =
                  filter (\<lambda>l. from_id l \<noteq> slug ''B'') (links_table ?s)
                  @ takeWhile (foreign_key_ok (foreign_keys ?s)
                                 (map col_id (notes_table ?s) @ [slug ''B'']))
                      (link_rows (newNote ?h ?s ''B'' ''[[a]] then [[zz]] then [[a]]'' []))"
    using failed_operation_keeps_earlier_writes
            [where h = ?h and s = ?s and title = "''B''"
               and content = "''[[a]] then [[zz]] then [[a]]''" and tags = "[]"
               and ?s1.0 = "snd ?dangling"] c1
    by blast
  have upd: "notes_table (snd ?upd) =
               notes_table (update_notes
                 (note_title (updatedNote (vault_host 3000 True) ?old (new_content ''see [[zz]]'')))
                 (note_content (updatedNote (vault_host 3000 True) ?old (new_content ''see [[zz]]'')))
                 (note_tags (updatedNote (vault_host 3000 True) ?old (new_content ''see [[zz]]'')))
                 (now (vault_host 3000 True)) ''a'' ?s)
             \<and> notes_fts (snd ?upd) = notes_fts ?s
                 @ [fts_row_of (updatedNote (vault_host 3000 True) ?old
                                  (new_content ''see [[zz]]''))]"
    using failed_operation_keeps_earlier_writes
            [where h = "vault_host 3000 True" and s = ?s and target = "''a''"
               and updates = "new_content ''see [[zz]]''" and old = ?old
               and ?s2.0 = "snd ?upd"] u1 u2
    by blast
  show ?thesis
    using d1 d2 early c0 late u0 upd
    by (simp only: row entry rows un uf simp_thms)
qed

text \<open>
  Claim C1 as stated fails: a create whose second link has no target ends in the foreign
  key error with the note in \<^verbatim>\<open>notes\<close> and in \<^verbatim>\<open>notes_fts\<close> and the first of its edges in
  \<^verbatim>\<open>links\<close>.
\<close>

theorem createNote_not_atomic_counterexample:
  "map col_id (notes_table (note_A_store True)) = [''a'']
   \<and> map fts_id (notes_fts (note_A_store True)) = [''a'']
   \<and> links_table (note_A_store True) = []
   \<and> fst (createNote (vault_host 2000 True) ''B'' ''[[a]] then [[zz]] then [[a]]'' []
            (note_A_store True)) = Inl (SqliteError SQLITE_CONSTRAINT_FOREIGNKEY)
   \<and> map col_id
         (notes_table (snd (createNote (vault_host 2000 True) ''B''
                              ''[[a]] then [[zz]] then [[a]]'' [] (note_A_store True))))
       = [''a'', ''b'']
   \<and> map fts_id
         (notes_fts (snd (createNote (vault_host 2000 True) ''B''
                            ''[[a]] then [[zz]] then [[a]]'' [] (note_A_store True))))
       = [''a'', ''b'']
   \<and> map (\<lambda>l. (from_id l, to_id l, col_type l))
         (links_table (snd (createNote (vault_host 2000 True) ''B''
                              ''[[a]] then [[zz]] then [[a]]'' [] (note_A_store True))))
       = [(''b'', ''a'', reference)]"
  by code_simp

subsection \<open>Write requests without id and title\<close>

lemma slug_Untitled: "slug ''Untitled'' = ''untitled''"
  by code_simp

lemma createNote_returned:
  assumes "createNote h title content tags s = (Inr n, s1)"
  shows "note_title n = title \<and> note_id n = slug title
         \<and> slug title \<in> set (map col_id (notes_table s1))"
proof -
  let ?path = "path_join h (vaultPath s) (title @ ''.md'')"
  let ?new = "\<lparr>note_id = slug title, note_title = title, note_content = content,
                  note_path = ?path, note_tags = tags,
                  note_created = now h, note_modified = now h,
                  note_links = extractLinks content\<rparr>"
  let ?s1 = "s\<lparr>files := (files s)(?path \<mapsto> formatNoteAsMarkdown ?new)\<rparr>"
  let ?row = "\<lparr>col_id = slug title, col_title = title, col_content = content,
               col_path = ?path, col_tags = Some tags,
               col_created = now h, col_modified = now h\<rparr>"
  from assms have fs: "ensureDir_ok h" "writeFile_ok h ?path"
    by (auto simp: createNote_def Let_def split: if_splits)
  show ?thesis
  proof (cases "insert_notes ?row ?s1")
    case (Inl e)
    with fs assms show ?thesis by (simp add: createNote_def Let_def)
  next
    case (Inr s2)
    then have tbl: "notes_table s2 = notes_table s @ [?row]"
      by (auto simp: insert_notes_def split: if_splits)
    obtain r t where r: "updateLinks ?new (indexNoteInFTS ?new s2) = (r, t)"
      by (cases "updateLinks ?new (indexNoteInFTS ?new s2)") blast
    with fs Inr assms have n: "n = ?new" and s1: "s1 = t"
      by (cases r; simp add: createNote_def Let_def)+
    have "notes_table (snd (updateLinks ?new (indexNoteInFTS ?new s2)))
            = notes_table (indexNoteInFTS ?new s2)"
      by (rule updateLinks_preserves) simp
    with r s1 tbl have "notes_table s1 = notes_table s @ [?row]"
      by (simp add: indexNoteInFTS_def insert_or_replace_notes_fts_def)
    with n show ?thesis by simp
  qed
qed

lemma createNote_duplicate_id:
  assumes "slug title \<in> set (map col_id (notes_table s))"
  shows "notes_table (snd (createNote h title content tags s)) = notes_table s
         \<and> (\<exists>e. fst (createNote h title content tags s) = Inl e)
         \<and> (ensureDir_ok h \<and> writeFile_ok h (path_join h (vaultPath s) (title @ ''.md''))
              \<longrightarrow> fst (createNote h title content tags s)
                    \<in> {Inl (SqliteError SQLITE_CONSTRAINT_UNIQUE),
                        Inl (SqliteError SQLITE_CONSTRAINT_PRIMARYKEY)})"
  using assms by (simp add: createNote_def Let_def insert_notes_def)

text \<open>
  Claim C10. A write request with no (or an empty) \<^verbatim>\<open>noteId\<close> and no (or an empty) \<^verbatim>\<open>title\<close>
  goes to \<^verbatim>\<open>createNote\<close> with the title \<^verbatim>\<open>Untitled\<close>: the note it returns has that title and
  the id \<^verbatim>\<open>untitled\<close>. A second such request on the store the first one left creates no
  note: it ends in an error and the \<^verbatim>\<open>notes\<close> table is unchanged; when the vault can be
  written, the error is the uniqueness violation raised by the \<^verbatim>\<open>INSERT\<close> into \<^verbatim>\<open>notes\<close>.
\<close>

theorem toolWriteNote_untitled_twice:
  assumes "\<not> truthy (req_noteId r1)" and "\<not> truthy (req_title r1)"
    and "\<not> truthy (req_noteId r2)" and "\<not> truthy (req_title r2)"
    and "toolWriteNote h1 r1 s = (Inr n, s1)"
  shows "note_title n = ''Untitled'' \<and> note_id n = ''untitled''
         \<and> notes_table (snd (toolWriteNote h2 r2 s1)) = notes_table s1
         \<and> (\<exists>e. fst (toolWriteNote h2 r2 s1) = Inl e)
         \<and> (ensureDir_ok h2
              \<and> writeFile_ok h2 (path_join h2 (vaultPath s1) (''Untitled'' @ ''.md''))
              \<longrightarrow> fst (toolWriteNote h2 r2 s1)
                    \<in> {Inl (SqliteError SQLITE_CONSTRAINT_UNIQUE),
                        Inl (SqliteError SQLITE_CONSTRAINT_PRIMARYKEY)})"
proof -
  from assms(1,2,5)
  have "createNote h1 ''Untitled'' (spread [] (req_content r1)) (spread [] (req_tags r1)) s
          = (Inr n, s1)"
    by (simp add: toolWriteNote_def)
  from createNote_returned [OF this]
  have n: "note_title n = ''Untitled''" "note_id n = ''untitled''"
    and taken: "slug ''Untitled'' \<in> set (map col_id (notes_table s1))"
    by (simp_all add: slug_Untitled)
  have second: "toolWriteNote h2 r2 s1 =
      createNote h2 ''Untitled'' (spread [] (req_content r2)) (spread [] (req_tags r2)) s1"
    using assms(3,4) by (simp add: toolWriteNote_def)
  show ?thesis
    unfolding second using n createNote_duplicate_id [OF taken] by blast
qed

theorem toolWriteNote_untitled_twice_witness:
  "\<not> truthy (req_noteId (new_content ''first'')) \<and> \<not> truthy (req_title (new_content ''first''))
   \<and> \<not> truthy (req_noteId (new_content ''second''))
   \<and> \<not> truthy (req_title (new_content ''second''))
   \<and> fst (toolWriteNote (vault_host 1000 True) (new_content ''first'') (empty_service False)) =
       Inr \<lparr>note_id = ''untitled'', note_title = ''Untitled'', note_content = ''first'',
            note_path = ''/vault/Untitled.md'', note_tags = [], note_created = 1000,
            note_modified = 1000, note_links = []\<rparr>
   \<and> fst (toolWriteNote (vault_host 2000 True) (new_content ''second'')
            (snd (toolWriteNote (vault_host 1000 True) (new_content ''first'')
                    (empty_service False)))) = Inl (SqliteError SQLITE_CONSTRAINT_UNIQUE)
   \<and> map col_content
         (notes_table (snd (toolWriteNote (vault_host 2000 True) (new_content ''second'')
            (snd (toolWriteNote (vault_host 1000 True) (new_content ''first'')
                    (empty_service False)))))) = [''first'']"
proof -
  let ?n = "\<lparr>note_id = ''untitled'', note_title = ''Untitled'', note_content = ''first'',
            note_path = ''/vault/Untitled.md'', note_tags = [], note_created = 1000,
            note_modified = 1000, note_links = []\<rparr>"
  let ?first = "toolWriteNote (vault_host 1000 True) (new_content ''first'') (empty_service False)"
  have h1: "\<not> truthy (req_noteId (new_content ''first''))"
    and h2: "\<not> truthy (req_title (new_content ''first''))"
    and h3: "\<not> truthy (req_noteId (new_content ''second''))"
    and h4: "\<not> truthy (req_title (new_content ''second''))"
    by (simp_all add: truthy_def new_content_def)
  have f: "fst ?first = Inr ?n" by code_simp
  then have h5: "?first = (Inr ?n, snd ?first)" by (metis prod.collapse)
  have e: "fst (toolWriteNote (vault_host 2000 True) (new_content ''second'') (snd ?first))
             = Inl (SqliteError SQLITE_CONSTRAINT_UNIQUE)"
    by code_simp
  have c: "map col_content (notes_table (snd ?first)) = [''first'']" by code_simp
  from toolWriteNote_untitled_twice [OF h1 h2 h3 h4 h5, of "vault_host 2000 True"]
    h1 h2 h3 h4 f e c
  show ?thesis by simp
qed

subsection \<open>Search\<close>

lemma search_more_than_one_tag:
  "search engine query (Some (t1 # t2 # ts)) limit s = Inl RangeError"
  by (simp add: search_def Let_def spread_def)

lemma search_bound:
  assumes "case tags of None \<Rightarrow> True | Some ts \<Rightarrow> length ts \<le> 1"
    and "limit_integer (spread (Whole 50) limit) = Inr k"
  shows "k = 0 \<Longrightarrow> search engine query tags limit s = Inr []"
    and "k \<noteq> 0 \<Longrightarrow> notes_fts_MATCH engine query (notes_fts s) = Inl e
           \<Longrightarrow> search engine query tags limit s = Inl e"
    and "notes_fts_MATCH engine query (notes_fts s) = Inr []
           \<Longrightarrow> search engine query tags limit s = Inr []"
proof -
  have one: "\<And>ts. tags = Some ts \<Longrightarrow> ts \<noteq> [] \<Longrightarrow> length ts = Suc 0"
  proof -
    fix ts
    assume "tags = Some ts" and "ts \<noteq> []"
    with assms(1) show "length ts = Suc 0" by (cases ts) auto
  qed
  have bound: "length ([Text query]
                   @ (if (case tags of None \<Rightarrow> False | Some ts \<Rightarrow> length ts > 0)
                      then map Text (spread [] tags) else [])
                   @ [Number (spread (Whole 50) limit)])
               = 1 + (if (case tags of None \<Rightarrow> False | Some ts \<Rightarrow> length ts > 0)
                      then 1 else 0) + (1::nat)"
    using one by (cases tags) (auto simp: spread_def)
  show "k = 0 \<Longrightarrow> search engine query tags limit s = Inr []"
    using bound assms(2) by (simp add: search_def Let_def)
  show "k \<noteq> 0 \<Longrightarrow> notes_fts_MATCH engine query (notes_fts s) = Inl e
           \<Longrightarrow> search engine query tags limit s = Inl e"
    using bound assms(2) by (simp add: search_def Let_def)
  show "notes_fts_MATCH engine query (notes_fts s) = Inr []
           \<Longrightarrow> search engine query tags limit s = Inr []"
    using bound assms(2) by (simp add: search_def Let_def)
qed

text \<open>
  Claim C9, as amended. For a search with at most one tag and a limit that the engine
  takes for an integer (the default of 50 is one): when the engine accepts the text of
  the query and no row of \<^verbatim>\<open>notes_fts\<close> matches it, the result is the empty sequence and no
  error; when the engine refuses the text and the limit is not zero, the engine's error
  comes out of \<^verbatim>\<open>search\<close>; when the limit is zero, the result is the empty sequence
  whatever the text is.
\<close>

theorem search_without_match_is_empty:
  assumes "case tags of None \<Rightarrow> True | Some ts \<Rightarrow> length ts \<le> 1"
    and "limit_integer (spread (Whole 50) limit) = Inr k"
  shows "(fts5_tokens query = Some tokens \<and> tokens \<noteq> [] \<and> fts5_minus_ok tokens
          \<and> engine query = Some rank
          \<and> filter (\<lambda>e. rank (notes_fts s) e \<noteq> None) (notes_fts s) = []
            \<longrightarrow> search engine query tags limit s = Inr [])
         \<and> (fts5_rejects engine query \<and> k \<noteq> 0
            \<longrightarrow> search engine query tags limit s = Inl (SqliteError SQLITE_ERROR))
         \<and> (k = 0 \<longrightarrow> search engine query tags limit s = Inr [])"
proof (intro conjI impI)
  assume a: "fts5_tokens query = Some tokens \<and> tokens \<noteq> [] \<and> fts5_minus_ok tokens
          \<and> engine query = Some rank
          \<and> filter (\<lambda>e. rank (notes_fts s) e \<noteq> None) (notes_fts s) = []"
  then have "\<forall>e \<in> set (notes_fts s). rank (notes_fts s) e = None"
    by (simp add: filter_empty_conv)
  then have "concat (map (\<lambda>e. case rank (notes_fts s) e of None \<Rightarrow> [] | Some r \<Rightarrow> [(e, r)])
                       (notes_fts s)) = []"
    by simp
  with a have "notes_fts_MATCH engine query (notes_fts s) = Inr []"
    by (simp add: notes_fts_MATCH_def)
  then show "search engine query tags limit s = Inr []"
    by (rule search_bound(3) [OF assms])
next
  assume a: "fts5_rejects engine query \<and> k \<noteq> 0"
  then have "notes_fts_MATCH engine query (notes_fts s) = Inl (SqliteError SQLITE_ERROR)"
    by (auto simp: fts5_rejects_def notes_fts_MATCH_def split: option.splits if_splits)
  with a show "search engine query tags limit s = Inl (SqliteError SQLITE_ERROR)"
    using search_bound(2) [OF assms] by blast
next
  assume "k = 0"
  then show "search engine query tags limit s = Inr []"
    by (rule search_bound(1) [OF assms])
qed

theorem search_without_match_is_empty_witness:
  "limit_integer (spread (Whole 50) None) = Inr 50
   \<and> limit_integer (spread (Whole 50) (Some (Whole 0))) = Inr 0
   \<and> fts5_tokens ''nosuchtoken'' = Some [FTS5_STRING ''nosuchtoken'']
   \<and> fts5_minus_ok [FTS5_STRING ''nosuchtoken'']
   \<and> map fts_title (notes_fts (note_A_store True)) = [''A'']
   \<and> map res_noteId (projr (search match_title ''A'' None None (note_A_store True))) = [''a'']
   \<and> search match_title ''nosuchtoken'' None None (note_A_store True) = Inr []
   \<and> search match_title ''nosuchtoken'' (Some [''t'']) None (note_A_store True) = Inr []
   \<and> fts5_rejects match_title ''no-such-token''
   \<and> search match_title ''no-such-token'' None None (note_A_store True)
       = Inl (SqliteError SQLITE_ERROR)
   \<and> search match_title ''no-such-token'' None (Some (Whole 0)) (note_A_store True) = Inr []"
proof -
  let ?rank = "\<lambda>(table :: fts_row list) e.
                 if fts_title e = ''nosuchtoken'' then Some (0::int) else None"
  let ?s = "note_A_store True"
  have t0: "case (None :: string list option) of None \<Rightarrow> True | Some ts \<Rightarrow> length ts \<le> 1"
    by simp
  have t1: "case Some [''t''] of None \<Rightarrow> True | Some ts \<Rightarrow> length ts \<le> 1"
    by simp
  have l50: "limit_integer (spread (Whole 50) None) = Inr 50"
    by (simp add: limit_integer_def spread_def)
  have l0: "limit_integer (spread (Whole 50) (Some (Whole 0))) = Inr 0"
    by (simp add: limit_integer_def spread_def)
  have h1: "fts5_tokens ''nosuchtoken'' = Some [FTS5_STRING ''nosuchtoken'']" by code_simp
  have h3: "fts5_minus_ok [FTS5_STRING ''nosuchtoken'']" by simp
  have h4: "match_title ''nosuchtoken'' = Some ?rank"
    by (simp add: match_title_def)
  have t: "map fts_title (notes_fts ?s) = [''A'']" by code_simp
  have h5: "filter (\<lambda>e. ?rank (notes_fts ?s) e \<noteq> None) (notes_fts ?s) = []"
    by code_simp
  have found: "map res_noteId (projr (search match_title ''A'' None None ?s)) = [''a'']"
    by code_simp
  have rej: "fts5_rejects match_title ''no-such-token''" by code_simp
  have a: "search match_title ''nosuchtoken'' None None ?s = Inr []"
    using search_without_match_is_empty
            [where engine = match_title and rank = ?rank and tokens = "[FTS5_STRING ''nosuchtoken'']"
               and query = "''nosuchtoken''" and s = ?s, OF t0 l50]
          h1 h3 h4 h5
    by blast
  have b: "search match_title ''nosuchtoken'' (Some [''t'']) None ?s = Inr []"
    using search_without_match_is_empty
            [where engine = match_title and rank = ?rank and tokens = "[FTS5_STRING ''nosuchtoken'']"
               and query = "''nosuchtoken''" and s = ?s, OF t1 l50]
          h1 h3 h4 h5
    by blast
  have c: "search match_title ''no-such-token'' None None ?s = Inl (SqliteError SQLITE_ERROR)"
    using search_without_match_is_empty
            [where engine = match_title and query = "''no-such-token''" and s = ?s, OF t0 l50]
          rej
    by simp
  have d: "search match_title ''no-such-token'' None (Some (Whole 0)) ?s = Inr []"
    using search_without_match_is_empty
            [where engine = match_title and query = "''no-such-token''" and s = ?s, OF t0 l0]
    by simp
  show ?thesis
    using l50 l0 h1 h3 t found a b rej c d by (simp only: simp_thms)
qed

text \<open>
  Claim C9 as stated fails at its own example: \<^verbatim>\<open>no-such-token\<close> is cut into three
  barewords with a minus sign between them, no minus sign starts a column filter, and the
  error of the engine comes out of \<^verbatim>\<open>search\<close>, which catches nothing.
\<close>

theorem search_hyphen_query_counterexample:
  "fts5_tokens ''no-such-token'' =
     Some [FTS5_STRING ''no'', FTS5_MINUS, FTS5_STRING ''such'', FTS5_MINUS,
           FTS5_STRING ''token'']
   \<and> search match_title ''no-such-token'' None None (note_A_store False)
       = Inl (SqliteError SQLITE_ERROR)
   \<and> search (match_all 0) ''no-such-token'' None None (empty_service True)
       = Inl (SqliteError SQLITE_ERROR)"
  by code_simp

text \<open>
  Claim C6 at a failing input. The note \<^verbatim>\<open>a\<close> carries the tag \<^verbatim>\<open>t\<close> and is found with the
  tag list \<^verbatim>\<open>[t]\<close>; with two tags, of which it carries one, the call throws a RangeError
  instead of keeping it: the statement has one placeholder for a tag and is given two
  values.
\<close>

theorem search_two_tags_throws:
  "map col_tags (notes_table (note_A_store False)) = [Some [''t'']]
   \<and> map res_noteId
         (projr (search (match_all 0) ''old'' (Some [''t'']) None (note_A_store False))) = [''a'']
   \<and> search (match_all 0) ''old'' (Some [''t'', ''u'']) None (note_A_store False)
       = Inl RangeError
   \<and> search (match_all 0) ''old'' (Some [''u'', ''t'']) (Some (Whole 10)) (note_A_store False)
       = Inl RangeError"
  by code_simp

subsection \<open>Rows that pile up in the derived tables\<close>

text \<open>
  Claim C4 at a failing input. The note \<^verbatim>\<open>B\<close> names the target \<^verbatim>\<open>a\<close> twice: its creation
  leaves two backlink rows from \<^verbatim>\<open>a\<close> to \<^verbatim>\<open>b\<close>, with foreign keys enforced or not. An update
  of \<^verbatim>\<open>b\<close> that names \<^verbatim>\<open>a\<close> once deletes the rows whose origin is \<^verbatim>\<open>b\<close>, which the backlink
  rows are not, and adds a third.
\<close>

theorem backlink_rows_are_duplicated:
  "map (\<lambda>l. (from_id l, to_id l, col_type l)) (links_table (linked_store True)) =
     [(''b'', ''a'', reference), (''b'', ''a'', reference),
      (''a'', ''b'', backlink), (''a'', ''b'', backlink)]
   \<and> length (filter (\<lambda>l. from_id l = ''a'' \<and> to_id l = ''b'' \<and> col_type l = backlink)
               (links_table (linked_store False))) = 2
   \<and> fst (updateNote (vault_host 2000 True) ''b'' (new_content ''see [[a]]'')
            (linked_store True)) =
       Inr \<lparr>note_id = ''b'', note_title = ''B'', note_content = ''see [[a]]'',
            note_path = ''/vault/B.md'', note_tags = [], note_created = 1001,
            note_modified = 2000,
            note_links = [\<lparr>link_to = ''a'', link_type = reference,
                           link_context = ''[[a]]''\<rparr>]\<rparr>
   \<and> map (\<lambda>l. (from_id l, to_id l, col_type l))
         (links_table (snd (updateNote (vault_host 2000 True) ''b'' (new_content ''see [[a]]'')
                              (linked_store True)))) =
     [(''a'', ''b'', backlink), (''a'', ''b'', backlink),
      (''b'', ''a'', reference), (''a'', ''b'', backlink)]"
  by code_simp

text \<open>
  Claim C5 at a failing input. After one create and one update of the note \<^verbatim>\<open>a\<close>, which
  both return, the \<^verbatim>\<open>notes\<close> table has one row with the id \<^verbatim>\<open>a\<close> and \<^verbatim>\<open>notes_fts\<close> has two.
\<close>

theorem update_adds_second_search_entry:
  "map fts_id (notes_fts (note_A_store False)) = [''a'']
   \<and> fst (updateNote (vault_host 2000 True) ''a'' (new_content ''new text'')
            (note_A_store False)) =
       Inr \<lparr>note_id = ''a'', note_title = ''A'', note_content = ''new text'',
            note_path = ''/vault/A.md'', note_tags = [''t''], note_created = 1000,
            note_modified = 2000, note_links = []\<rparr>
   \<and> map col_id
         (notes_table (snd (updateNote (vault_host 2000 True) ''a'' (new_content ''new text'')
                              (note_A_store False)))) = [''a'']
   \<and> notes_fts (snd (updateNote (vault_host 2000 True) ''a'' (new_content ''new text'')
                        (note_A_store False))) =
       [\<lparr>fts_id = ''a'', fts_title = ''A'', fts_content = ''old text''\<rparr>,
        \<lparr>fts_id = ''a'', fts_title = ''A'', fts_content = ''new text''\<rparr>]"
  by code_simp

subsection \<open>The order of the mirror file and the store\<close>

text \<open>
  Claim C2 at a failing input. An update of \<^verbatim>\<open>b\<close> whose mirror file cannot be written
  ends in the file-system error with the new content in the \<^verbatim>\<open>notes\<close> table and the old
  text in the file. A create in the same vault writes the file first and leaves no row.
\<close>

theorem updateNote_commits_before_mirror_write:
  "files (linked_store True) ''/vault/B.md'' =
     Some (''# B'' @ [CHR 0x0A, CHR 0x0A] @ ''see [[a]] and [[a]]'')
   \<and> fst (updateNote (vault_host 2000 False) ''b'' (new_content ''rewritten'')
            (linked_store True)) = Inl (FsError ''/vault/B.md'')
   \<and> map_option note_content
         (readNote ''b'' (snd (updateNote (vault_host 2000 False) ''b''
                                 (new_content ''rewritten'') (linked_store True))))
       = Some ''rewritten''
   \<and> files (snd (updateNote (vault_host 2000 False) ''b'' (new_content ''rewritten'')
                    (linked_store True))) ''/vault/B.md'' =
     Some (''# B'' @ [CHR 0x0A, CHR 0x0A] @ ''see [[a]] and [[a]]'')
   \<and> fst (createNote (vault_host 2000 False) ''C'' ''text'' [] (linked_store True))
       = Inl (FsError ''/vault/C.md'')
   \<and> readNote ''c'' (snd (createNote (vault_host 2000 False) ''C'' ''text'' []
                             (linked_store True))) = None"
  by code_simp

end
